theory Spec2Isabelle
  imports Main "HOL-Library.Word"
begin

section \<open>The C library and kernel interface used by the execution core\<close>

text \<open>
  The three source files (\<^verbatim>\<open>runner.c\<close>, \<^verbatim>\<open>wait.c\<close>, \<^verbatim>\<open>signal.c\<close>) are embedded
  as functions on an explicit shell state.  Everything the code asks of the kernel or of
  a collaborator that is not part of these files is either modelled here (descriptor
  table, \<^verbatim>\<open>strtol\<close>, process groups) or answered by a \<open>world\<close> record that fixes the
  result of each call.  C \<^verbatim>\<open>int\<close>, \<^verbatim>\<open>long\<close> and \<^verbatim>\<open>pid_t\<close> values are \<open>int\<close>; the
  one narrowing conversion of the code (\<^verbatim>\<open>long\<close> to \<^verbatim>\<open>int\<close>) is written out.
\<close>

definition INT_MAX :: int where
  "INT_MAX = 2147483647"

definition LONG_MAX :: int where
  "LONG_MAX = 9223372036854775807"

definition LONG_MIN :: int where
  "LONG_MIN = - 9223372036854775808"

text \<open>Passing a \<^verbatim>\<open>long\<close> where an \<^verbatim>\<open>int\<close> is expected keeps the low 32 bits.\<close>

definition int_of_long :: "int \<Rightarrow> int" where
  "int_of_long x = sint (word_of_int x :: 32 word)"

subsection \<open>\<^verbatim>\<open>strtol\<close> with base 10\<close>

definition isspace :: "char \<Rightarrow> bool" where
  "isspace c = (c = CHR '' '' \<or> c = CHR 0x09 \<or> c = CHR 0x0A \<or> c = CHR 0x0B
                \<or> c = CHR 0x0C \<or> c = CHR 0x0D)"

definition isdigit :: "char \<Rightarrow> bool" where
  "isdigit c = (48 \<le> (of_char c :: nat) \<and> (of_char c :: nat) \<le> 57)"

definition digit_val :: "char \<Rightarrow> int" where
  "digit_val c = int (of_char c) - 48"

fun decimal :: "int \<Rightarrow> string \<Rightarrow> int" where
  "decimal acc [] = acc"
| "decimal acc (c # cs) = decimal (acc * 10 + digit_val c) cs"

text \<open>
  \<^verbatim>\<open>strtol(nptr, &end, 10)\<close>: skips white space, takes an optional sign and the longest
  run of digits; the value is clamped to the range of \<^verbatim>\<open>long\<close>; with no digit at all the
  result is 0 and \<^verbatim>\<open>end\<close> is \<^verbatim>\<open>nptr\<close>.  The second component is the string
  \<^verbatim>\<open>end\<close> points to.
\<close>

definition strtol :: "string \<Rightarrow> int \<times> string" where
  "strtol nptr =
     (let t = dropWhile isspace nptr;
          neg = (t \<noteq> [] \<and> hd t = CHR ''-'');
          u = (if t \<noteq> [] \<and> (hd t = CHR ''-'' \<or> hd t = CHR ''+'') then tl t else t);
          ds = takeWhile isdigit u;
          v = (if neg then - decimal 0 ds else decimal 0 ds)
      in if ds = [] then (0, nptr)
         else (max LONG_MIN (min LONG_MAX v), dropWhile isdigit u))"

subsection \<open>The descriptor table of a process\<close>

datatype oflag = O_RDONLY | O_WRONLY | O_RDWR | O_CREAT | O_EXCL | O_TRUNC | O_APPEND

text \<open>
  An open file description: something the process had open when the run started, a file
  opened by name with flags, or one end of a pipe created by the given command.
\<close>

datatype ofile = Inherited nat | Named string "oflag set" | PipeRead nat | PipeWrite nat

text \<open>
  Entry \<open>k\<close> of the table is descriptor \<open>k\<close>; \<open>None\<close> is a free slot.  The table
  has one entry for every descriptor number the process may use: its length is the
  limit on open descriptors of the process (\<^verbatim>\<open>RLIMIT_NOFILE\<close>), and no call changes it.
\<close>

type_synonym fdtable = "ofile option list"

definition fd_lookup :: "fdtable \<Rightarrow> int \<Rightarrow> ofile option" where
  "fd_lookup t fd = (if 0 \<le> fd \<and> nat fd < length t then t ! nat fd else None)"

fun lowest_free :: "fdtable \<Rightarrow> nat" where
  "lowest_free [] = 0"
| "lowest_free (None # t) = 0"
| "lowest_free (Some f # t) = Suc (lowest_free t)"

definition fd_install :: "nat \<Rightarrow> ofile \<Rightarrow> fdtable \<Rightarrow> fdtable" where
  "fd_install k f t = t[k := Some f]"

text \<open>
  Each call returns the C return value (negative on failure) and the new table.
  \<^verbatim>\<open>close\<close> fails on a descriptor that is not open (\<^verbatim>\<open>EBADF\<close>); so do \<^verbatim>\<open>dup\<close> and
  \<^verbatim>\<open>dup2\<close> for their source.  \<^verbatim>\<open>dup2\<close> also fails on a target that is negative or
  not below the limit (\<^verbatim>\<open>EBADF\<close>), and \<^verbatim>\<open>dup\<close>, \<^verbatim>\<open>open\<close> and \<^verbatim>\<open>pipe\<close> fail when
  the free slots they need are not there (\<^verbatim>\<open>EMFILE\<close>).  Whether \<^verbatim>\<open>open\<close> and
  \<^verbatim>\<open>pipe\<close> succeed otherwise is decided by the caller's \<open>world\<close>.
\<close>

definition sys_close :: "int \<Rightarrow> fdtable \<Rightarrow> int \<times> fdtable" where
  "sys_close fd t =
     (if fd_lookup t fd = None then (- 1, t) else (0, t[nat fd := None]))"

definition sys_dup2 :: "int \<Rightarrow> int \<Rightarrow> fdtable \<Rightarrow> int \<times> fdtable" where
  "sys_dup2 src dst t =
     (case fd_lookup t src of
        None \<Rightarrow> (- 1, t)
      | Some f \<Rightarrow>
          if dst < 0 \<or> int (length t) \<le> dst then (- 1, t)
          else if src = dst then (dst, t)
          else (dst, fd_install (nat dst) f t))"

definition sys_dup :: "int \<Rightarrow> fdtable \<Rightarrow> int \<times> fdtable" where
  "sys_dup src t =
     (case fd_lookup t src of
        None \<Rightarrow> (- 1, t)
      | Some f \<Rightarrow>
          if lowest_free t < length t
          then (int (lowest_free t), fd_install (lowest_free t) f t)
          else (- 1, t))"

definition sys_open :: "bool \<Rightarrow> string \<Rightarrow> oflag set \<Rightarrow> fdtable \<Rightarrow> int \<times> fdtable" where
  "sys_open ok path flags t =
     (if ok \<and> lowest_free t < length t
      then (int (lowest_free t), fd_install (lowest_free t) (Named path flags) t)
      else (- 1, t))"

text \<open>\<^verbatim>\<open>pipe\<close>: the read end, the write end and the new table, or \<open>None\<close> on failure.\<close>

definition sys_pipe :: "bool \<Rightarrow> nat \<Rightarrow> fdtable \<Rightarrow> (int \<times> int \<times> fdtable) option" where
  "sys_pipe ok i t =
     (let r = lowest_free t;
          t1 = fd_install r (PipeRead i) t;
          w = lowest_free t1
      in if ok \<and> r < length t \<and> w < length t
         then Some (int r, int w, fd_install w (PipeWrite i) t1)
         else None)"

section \<open>The parsed command (\<^verbatim>\<open>parser.h\<close>, as \<^verbatim>\<open>runner.c\<close> uses it)\<close>

datatype io_operator =
  OP_LESS | OP_GREAT | OP_DGREAT | OP_LESSAND | OP_GREATAND | OP_LESSGREAT | OP_CLOBBER

record io_redir =
  io_op :: io_operator
  io_number :: int
  filename :: string

record assignment =
  a_name :: string
  a_value :: string

record command =
  words :: "string list"
  assignments :: "assignment list"
  io_redirs :: "io_redir list"
  ctrl_op :: char

section \<open>Redirection engine (\<^verbatim>\<open>runner.c\<close>)\<close>

fun get_io_flags :: "io_operator \<Rightarrow> oflag set" where
  "get_io_flags OP_LESSAND = {O_RDONLY}"
| "get_io_flags OP_LESS = {O_RDONLY}"
| "get_io_flags OP_GREATAND = {O_WRONLY, O_CREAT, O_EXCL}"
| "get_io_flags OP_GREAT = {O_WRONLY, O_CREAT, O_EXCL}"
| "get_io_flags OP_DGREAT = {O_WRONLY, O_CREAT, O_APPEND}"
| "get_io_flags OP_LESSGREAT = {O_RDWR, O_CREAT}"
| "get_io_flags OP_CLOBBER = {O_WRONLY, O_CREAT, O_TRUNC}"

definition move_fd :: "int \<Rightarrow> int \<Rightarrow> fdtable \<Rightarrow> int \<times> fdtable" where
  "move_fd src dst t =
     (if src = dst then (dst, t)
      else (case sys_dup2 src dst t of (rc, t1) \<Rightarrow>
              if rc < 0 then (- 1, t1)
              else (case sys_close src t1 of (rc2, t2) \<Rightarrow>
                      if rc2 < 0 then (- 1, t2) else (dst, t2))))"

text \<open>
  What the environment answers while one command's redirections are applied:
  whether the \<^verbatim>\<open>open\<close> of redirection \<open>i\<close> succeeds when there is a free
  descriptor for it, and whether the \<^verbatim>\<open>malloc\<close> of iteration \<open>i\<close> does.
\<close>

record rworld =
  open_ok :: "nat \<Rightarrow> bool"
  malloc_ok :: "nat \<Rightarrow> bool"

subsection \<open>\<^verbatim>\<open>do_io_redirects\<close>: the forked child of an external command\<close>

text \<open>The code from the label \<^verbatim>\<open>file_open\<close> to the end of the loop body.\<close>

definition io_file_open :: "rworld \<Rightarrow> nat \<Rightarrow> io_redir \<Rightarrow> fdtable \<Rightarrow> bool \<times> fdtable" where
  "io_file_open w i r t =
     (case sys_open (open_ok w i) (filename r) (get_io_flags (io_op r)) t of (fd, t1) \<Rightarrow>
        if fd < 0 then (False, t1)
        else (case move_fd fd (io_number r) t1 of (rc, t2) \<Rightarrow> (\<not> rc < 0, t2)))"

text \<open>One iteration of the loop: \<open>False\<close> is the jump to \<^verbatim>\<open>err\<close>.\<close>

definition io_redirect :: "rworld \<Rightarrow> nat \<Rightarrow> io_redir \<Rightarrow> fdtable \<Rightarrow> bool \<times> fdtable" where
  "io_redirect w i r t =
     (if io_op r = OP_GREATAND \<or> io_op r = OP_LESSAND then
        if filename r = ''-'' then
          (case sys_close (io_number r) t of (rc, t1) \<Rightarrow> (\<not> rc < 0, t1))
        else
          (case strtol (filename r) of (src, endp) \<Rightarrow>
             if filename r \<noteq> [] \<and> endp = [] \<and> src \<le> INT_MAX then
               (case sys_dup2 (int_of_long src) (io_number r) t of (rc, t1) \<Rightarrow> (\<not> rc < 0, t1))
             else io_file_open w i r t)
      else io_file_open w i r t)"

fun io_redirects_from :: "rworld \<Rightarrow> nat \<Rightarrow> io_redir list \<Rightarrow> fdtable \<Rightarrow> int \<times> fdtable" where
  "io_redirects_from w i [] t = (0, t)"
| "io_redirects_from w i (r # rs) t =
     (case io_redirect w i r t of
        (True, t1) \<Rightarrow> io_redirects_from w (Suc i) rs t1
      | (False, t1) \<Rightarrow> (- 1, t1))"

definition do_io_redirects :: "rworld \<Rightarrow> command \<Rightarrow> fdtable \<Rightarrow> int \<times> fdtable" where
  "do_io_redirects w cmd t = io_redirects_from w 0 (io_redirs cmd) t"

subsection \<open>\<^verbatim>\<open>do_builtin_io_redirects\<close>: the virtual table of a builtin\<close>

text \<open>
  A \<^verbatim>\<open>struct builtin_redir\<close>; the linked list is a list with its head first.
  A real descriptor of \<open>-1\<close> is the mark for "closed".
\<close>

record builtin_redir =
  pseudofd :: int
  realfd :: int

text \<open>
  The search \<^verbatim>\<open>for (; rec; rec = rec->next) if (rec->pseudofd == n) ... break\<close>:
  the position of the first record for pseudo-descriptor \<open>n\<close>.
\<close>

fun find_rec :: "int \<Rightarrow> builtin_redir list \<Rightarrow> nat option" where
  "find_rec n [] = None"
| "find_rec n (r # rs) =
     (if pseudofd r = n then Some 0 else map_option Suc (find_rec n rs))"

text \<open>
  The first loop of the duplicating branch: \<open>None\<close> when some record already uses
  \<open>src\<close> as its real descriptor (\<^verbatim>\<open>EBADF\<close>); a record for pseudo-descriptor
  \<open>src\<close> replaces \<open>src\<close> by its real descriptor, and the walk goes on with that.
\<close>

fun resolve_src :: "int \<Rightarrow> builtin_redir list \<Rightarrow> int option" where
  "resolve_src src [] = Some src"
| "resolve_src src (r # rs) =
     (if realfd r = src then None
      else resolve_src (if pseudofd r = src then realfd r else src) rs)"

type_synonym vstate = "fdtable \<times> builtin_redir list"

text \<open>The code from the label \<^verbatim>\<open>file_open\<close> to the end of the loop body.\<close>

definition builtin_file_open :: "rworld \<Rightarrow> nat \<Rightarrow> io_redir \<Rightarrow> vstate \<Rightarrow> bool \<times> vstate" where
  "builtin_file_open w i r v =
     (case v of (t, l) \<Rightarrow>
      case sys_open (open_ok w i) (filename r) (get_io_flags (io_op r)) t of (fd, t1) \<Rightarrow>
        if fd < 0 then (False, t1, l)
        else (case find_rec (io_number r) l of
                Some k \<Rightarrow>
                  (case move_fd fd (realfd (l ! k)) t1 of (rc, t2) \<Rightarrow> (\<not> rc < 0, t2, l))
              | None \<Rightarrow>
                  if \<not> malloc_ok w i then (False, t1, l)
                  else (True, t1, \<lparr>pseudofd = io_number r, realfd = fd\<rparr> # l)))"

text \<open>One iteration of the loop: \<open>False\<close> is the jump to \<^verbatim>\<open>err\<close>.\<close>

definition builtin_redirect :: "rworld \<Rightarrow> nat \<Rightarrow> io_redir \<Rightarrow> vstate \<Rightarrow> bool \<times> vstate" where
  "builtin_redirect w i r v =
     (case v of (t, l) \<Rightarrow>
      if io_op r = OP_GREATAND \<or> io_op r = OP_LESSAND then
        if filename r = ''-'' then
          (case find_rec (io_number r) l of
             Some k \<Rightarrow>
               (True, snd (sys_close (realfd (l ! k)) t), l[k := (l ! k)\<lparr>pseudofd := - 1\<rparr>])
           | None \<Rightarrow>
               if \<not> malloc_ok w i then (False, t, l)
               else (True, t, \<lparr>pseudofd = io_number r, realfd = - 1\<rparr> # l))
        else
          (case strtol (filename r) of (src0, endp) \<Rightarrow>
             if filename r \<noteq> [] \<and> endp = [] \<and> src0 \<le> INT_MAX then
               (case resolve_src src0 l of
                  None \<Rightarrow> (False, t, l)
                | Some src \<Rightarrow>
                    (case find_rec (io_number r) l of
                       Some k \<Rightarrow>
                         (case sys_dup2 (int_of_long src) (realfd (l ! k)) t of (rc, t1) \<Rightarrow>
                            (\<not> rc < 0, t1, l))
                     | None \<Rightarrow>
                         if \<not> malloc_ok w i then (False, t, l)
                         else (case sys_dup (int_of_long src) t of (fd, t1) \<Rightarrow>
                                 (True, t1, \<lparr>pseudofd = io_number r, realfd = fd\<rparr> # l))))
             else builtin_file_open w i r v)
      else builtin_file_open w i r v)"

text \<open>
  The loop: the label \<^verbatim>\<open>err\<close> is inside the loop body, so after a failed
  iteration \<^verbatim>\<open>status\<close> is \<open>-1\<close> and the loop goes on with the next redirection.
\<close>

fun builtin_redirects_from ::
  "rworld \<Rightarrow> nat \<Rightarrow> io_redir list \<Rightarrow> int \<Rightarrow> vstate \<Rightarrow> int \<times> vstate" where
  "builtin_redirects_from w i [] status v = (status, v)"
| "builtin_redirects_from w i (r # rs) status v =
     (case builtin_redirect w i r v of
        (True, v1) \<Rightarrow> builtin_redirects_from w (Suc i) rs status v1
      | (False, v1) \<Rightarrow> builtin_redirects_from w (Suc i) rs (- 1) v1)"

definition do_builtin_io_redirects :: "rworld \<Rightarrow> command \<Rightarrow> vstate \<Rightarrow> int \<times> vstate" where
  "do_builtin_io_redirects w cmd v = builtin_redirects_from w 0 (io_redirs cmd) 0 v"

section \<open>Shell state, job table and the trace of calls\<close>

datatype errno = EACCES | ESRCH | EPERM | EINVAL | ECHILD | EINTR | EOTHER

text \<open>
  A raw wait status, by the macro of \<^verbatim>\<open><sys/wait.h>\<close> that holds of it:
  \<^verbatim>\<open>WIFEXITED\<close> with its \<^verbatim>\<open>WEXITSTATUS\<close>, \<^verbatim>\<open>WIFSIGNALED\<close> with its
  \<^verbatim>\<open>WTERMSIG\<close>, \<^verbatim>\<open>WIFSTOPPED\<close>, or none of the three.
\<close>

datatype wstatus = Exited int | Signaled int | Stopped int | Unclassified int

fun WIFSTOPPED :: "wstatus \<Rightarrow> bool" where
  "WIFSTOPPED (Stopped sg) = True"
| "WIFSTOPPED st = False"

datatype wait_option = WNOHANG | WUNTRACED | WCONTINUED

datatype message =
    M_job_gone int
  | M_perror string
  | M_not_in_session int
  | M_invalid_group int
  | M_stopped int
  | M_done int
  | M_terminated int
  | M_started int int
  | M_warn

text \<open>
  The calls a process makes that something outside of it can see, in the order made:
  \<^verbatim>\<open>kill(pid, SIGCONT)\<close>, \<^verbatim>\<open>tcsetpgrp(fd, pgrp)\<close>, \<^verbatim>\<open>waitpid(pid, &status, options)\<close>,
  a line on the error stream, \<^verbatim>\<open>pipe\<close>, \<^verbatim>\<open>fork\<close>, \<^verbatim>\<open>setpgid(pid, pgid)\<close>,
  \<^verbatim>\<open>jobs_add(pgid)\<close>, the call of a builtin with its virtual table, \<^verbatim>\<open>vars_set\<close>,
  \<^verbatim>\<open>vars_export\<close>, a \<^verbatim>\<open>sigaction\<close> that puts back a saved disposition, and
  \<^verbatim>\<open>execvp\<close>.
\<close>

datatype signal = SIGTSTP | SIGTTOU | SIGINT

datatype event =
    E_kill_cont int
  | E_tcsetpgrp int int
  | E_waitpid int "wait_option set"
  | E_stderr message
  | E_pipe
  | E_fork
  | E_setpgid int int
  | E_jobs_add int
  | E_builtin command "builtin_redir list"
  | E_vars_set string string
  | E_vars_export string
  | E_sigaction_restore signal
  | E_execvp "string list"

record job =
  job_jid :: int
  job_pgid :: int
  job_status :: wstatus

text \<open>
  The state of the process that runs the code: \<^verbatim>\<open>params.status\<close> and
  \<^verbatim>\<open>params.bg_pid\<close>, its descriptor table, the job table, the process group of each
  process as \<^verbatim>\<open>setpgid\<close> has set it (key 0 is the calling process itself, as for
  \<^verbatim>\<open>setpgid\<close>), the foreground process group of the terminal, and the trace.
\<close>

record shell =
  params_status :: int
  params_bg_pid :: int
  fds :: fdtable
  jobs :: "job list"
  procs :: "int \<rightharpoonup> int"
  tty_fg :: int
  trace :: "event list"

definition emit :: "event \<Rightarrow> shell \<Rightarrow> shell" where
  "emit e s = s\<lparr>trace := trace s @ [e]\<rparr>"

text \<open>How a call of one of the functions below ends for the process that runs it.\<close>

datatype ending =
    Return int
  | Exit int
  | Exec "string list"
  | Abort
  | Block

subsection \<open>The job table (\<^verbatim>\<open>jobs.h\<close>)\<close>

text \<open>
  Modelled from the spec: the job table's implementation (\<^verbatim>\<open>jobs.c\<close>) is not among
  the source files; the spec gives its contract: a job is a job id, a process-group
  id and the last-known wait status; \<open>find_job_by_group\<close>, \<open>record_status\<close>,
  \<open>last_status\<close> and \<open>forget_group\<close> answer with the value or with failure, and the
  snapshot is the ordered list of jobs.  The job id that \<open>register\<close> hands out and the
  status a new job starts with are not given: they are arguments here.
\<close>

definition jobs_get_jid :: "int \<Rightarrow> job list \<Rightarrow> int" where
  "jobs_get_jid pg js =
     (case find (\<lambda>j. job_pgid j = pg) js of Some j \<Rightarrow> job_jid j | None \<Rightarrow> - 1)"

definition jobs_get_pgid :: "int \<Rightarrow> job list \<Rightarrow> int" where
  "jobs_get_pgid jd js =
     (case find (\<lambda>j. job_jid j = jd) js of Some j \<Rightarrow> job_pgid j | None \<Rightarrow> - 1)"

definition jobs_get_status :: "int \<Rightarrow> job list \<Rightarrow> wstatus option" where
  "jobs_get_status jd js = map_option job_status (find (\<lambda>j. job_jid j = jd) js)"

definition jobs_set_status :: "int \<Rightarrow> wstatus \<Rightarrow> job list \<Rightarrow> int \<times> job list" where
  "jobs_set_status jd st js =
     (if find (\<lambda>j. job_jid j = jd) js = None then (- 1, js)
      else (0, map (\<lambda>j. if job_jid j = jd then j\<lparr>job_status := st\<rparr> else j) js))"

definition jobs_remove_pgid :: "int \<Rightarrow> job list \<Rightarrow> int \<times> job list" where
  "jobs_remove_pgid pg js =
     (if find (\<lambda>j. job_pgid j = pg) js = None then (- 1, js)
      else (0, filter (\<lambda>j. job_pgid j \<noteq> pg) js))"

definition jobs_add :: "int \<Rightarrow> wstatus \<Rightarrow> int \<Rightarrow> job list \<Rightarrow> int \<times> job list" where
  "jobs_add new_jid st0 pg js =
     (if new_jid < 0 then (- 1, js)
      else (new_jid, js @ [\<lparr>job_jid = new_jid, job_pgid = pg, job_status = st0\<rparr>]))"

section \<open>Wait and reap protocol (\<^verbatim>\<open>wait.c\<close>)\<close>

text \<open>
  What \<^verbatim>\<open>waitpid\<close> answers: a process id (0 is "no child has changed state", which
  only a non-blocking wait returns) with the status, or an error.
\<close>

datatype wait_result = W_pid nat wstatus | W_err errno

text \<open>
  What the environment answers during one call: the global \<^verbatim>\<open>is_interactive\<close>,
  \<^verbatim>\<open>getpgid(0)\<close>, the results of \<^verbatim>\<open>kill\<close> and of the two \<^verbatim>\<open>tcsetpgrp\<close> calls
  (\<open>None\<close> is success), and the results of the successive \<^verbatim>\<open>waitpid\<close> calls.  A
  blocking \<^verbatim>\<open>waitpid\<close> issued when that list is used up never returns.
\<close>

record wworld =
  is_interactive :: bool
  shell_pgid :: int
  kill_res :: "errno option"
  tcset_res :: "errno option"
  tcrestore_res :: "errno option"
  waits :: "wait_result list"

subsection \<open>\<^verbatim>\<open>wait_on_fg_pgid\<close>\<close>

text \<open>The code from the label \<^verbatim>\<open>out\<close> to the end, for a given \<^verbatim>\<open>retval\<close>.\<close>

definition fg_out :: "wworld \<Rightarrow> int \<Rightarrow> shell \<Rightarrow> ending \<times> shell" where
  "fg_out w retval s =
     (if is_interactive w then
        (case tcrestore_res w of
           None \<Rightarrow> (Return retval, (emit (E_tcsetpgrp 0 (shell_pgid w)) s)\<lparr>tty_fg := shell_pgid w\<rparr>)
         | Some e \<Rightarrow>
             (Return retval,
              emit (E_stderr (M_perror ''Failed to restore BigShell as foreground process group''))
                (emit (E_tcsetpgrp 0 (shell_pgid w)) s)))
      else (Return retval, s))"

text \<open>The translation of the job's status into \<^verbatim>\<open>params.status\<close>.\<close>

fun set_exit_status :: "wstatus \<Rightarrow> shell \<Rightarrow> shell" where
  "set_exit_status (Exited c) s = s\<lparr>params_status := c\<rparr>"
| "set_exit_status (Signaled sg) s = s\<lparr>params_status := 128 + sg\<rparr>"
| "set_exit_status st s = s"

text \<open>The loop \<^verbatim>\<open>for (;;)\<close>, one \<^verbatim>\<open>waitpid(-pgid, &status, 0)\<close> per iteration.\<close>

fun fg_wait_loop :: "wworld \<Rightarrow> int \<Rightarrow> int \<Rightarrow> wait_result list \<Rightarrow> shell \<Rightarrow> ending \<times> shell" where
  "fg_wait_loop w pgid jid [] s = (Block, emit (E_waitpid (- pgid) {}) s)"
| "fg_wait_loop w pgid jid (W_err e # rest) s =
     (let s1 = emit (E_waitpid (- pgid) {}) s in
      if e = ECHILD then
        (case jobs_get_status jid (jobs s1) of
           None \<Rightarrow> fg_out w (- 1) s1
         | Some st \<Rightarrow>
             (let s2 = set_exit_status st s1;
                  s3 = s2\<lparr>jobs := snd (jobs_remove_pgid pgid (jobs s2))\<rparr>
              in fg_out w 0 s3))
      else if e = EINTR then fg_wait_loop w pgid jid rest s1
      else fg_out w (- 1) s1)"
| "fg_wait_loop w pgid jid (W_pid p st # rest) s =
     (let s1 = emit (E_waitpid (- pgid) {}) s in
      if p = 0 then (Abort, s1)
      else (case jobs_set_status jid st (jobs s1) of (rc, js) \<Rightarrow>
              if rc < 0 then fg_out w (- 1) s1
              else if WIFSTOPPED st then
                fg_out w 0 (emit (E_stderr (M_stopped jid)) (s1\<lparr>jobs := js\<rparr>))
              else fg_wait_loop w pgid jid rest (s1\<lparr>jobs := js\<rparr>)))"

definition wait_on_fg_pgid :: "wworld \<Rightarrow> int \<Rightarrow> shell \<Rightarrow> ending \<times> shell" where
  "wait_on_fg_pgid w pgid s =
     (if pgid < 0 then (Return (- 1), s)
      else if jobs_get_jid pgid (jobs s) < 0 then (Return (- 1), s)
      else
        (case kill_res w of
           Some e \<Rightarrow>
             (Return (- 1),
              emit (E_stderr
                     (if e = ESRCH then M_job_gone (jobs_get_jid pgid (jobs s))
                      else if e = EPERM then M_perror ''kill(SIGCONT) failed: Permission denied''
                      else M_perror ''kill(SIGCONT) failed''))
                (emit (E_kill_cont (- pgid)) s))
         | None \<Rightarrow>
             if is_interactive w then
               (case tcset_res w of
                  Some e \<Rightarrow>
                    (Return (- 1),
                     emit (E_stderr
                            (if e = EPERM then M_not_in_session pgid
                             else if e = EINVAL then M_invalid_group pgid
                             else M_perror ''tcsetpgrp failed''))
                       (emit (E_tcsetpgrp 0 pgid) (emit (E_kill_cont (- pgid)) s)))
                | None \<Rightarrow>
                    fg_wait_loop w pgid (jobs_get_jid pgid (jobs s)) (waits w)
                      ((emit (E_tcsetpgrp 0 pgid) (emit (E_kill_cont (- pgid)) s))\<lparr>tty_fg := pgid\<rparr>))
             else
               fg_wait_loop w pgid (jobs_get_jid pgid (jobs s)) (waits w)
                 (emit (E_kill_cont (- pgid)) s)))"

definition wait_on_fg_job :: "wworld \<Rightarrow> int \<Rightarrow> shell \<Rightarrow> ending \<times> shell" where
  "wait_on_fg_job w jid s =
     (if jobs_get_pgid jid (jobs s) < 0 then (Return (- 1), s)
      else wait_on_fg_pgid w (jobs_get_pgid jid (jobs s)) s)"

subsection \<open>\<^verbatim>\<open>wait_on_bg_jobs\<close>\<close>

text \<open>The report printed when \<^verbatim>\<open>waitpid\<close> has answered \<^verbatim>\<open>ECHILD\<close>.\<close>

fun bg_report :: "int \<Rightarrow> wstatus \<Rightarrow> shell \<Rightarrow> shell" where
  "bg_report jid (Exited c) s = emit (E_stderr (M_done jid)) s"
| "bg_report jid (Signaled sg) s = emit (E_stderr (M_terminated jid)) s"
| "bg_report jid st s = s"

text \<open>
  \<open>bg_outer i\<close> is the outer loop at index \<open>i\<close>, which reads \<^verbatim>\<open>job_count\<close> and
  \<^verbatim>\<open>jobs\<close> as last fetched (the table itself, since it only changes in the
  iteration that fetches it again); \<open>bg_inner\<close> is the inner \<^verbatim>\<open>for (;;)\<close> for the
  \<^verbatim>\<open>pgid\<close> and \<^verbatim>\<open>jid\<close> read at the start of the outer iteration.  Every inner
  iteration calls \<^verbatim>\<open>waitpid(0, &status, 0)\<close>.
\<close>

fun bg_outer :: "nat \<Rightarrow> wait_result list \<Rightarrow> shell \<Rightarrow> ending \<times> shell"
  and bg_inner :: "nat \<Rightarrow> int \<Rightarrow> int \<Rightarrow> wait_result list \<Rightarrow> shell \<Rightarrow> ending \<times> shell" where
  "bg_outer i ws s =
     (if i < length (jobs s)
      then bg_inner i (job_pgid (jobs s ! i)) (job_jid (jobs s ! i)) ws s
      else (Return 0, s))"
| "bg_inner i pgid jid [] s = (Block, emit (E_waitpid 0 {}) s)"
| "bg_inner i pgid jid (W_pid p st # rest) s =
     (let s1 = emit (E_waitpid 0 {}) s in
      if p = 0 then bg_outer (Suc i) rest s1
      else (case jobs_set_status jid st (jobs s1) of (rc, js) \<Rightarrow>
              if rc < 0 then (Return (- 1), s1)
              else if WIFSTOPPED st then
                bg_outer (Suc i) rest (emit (E_stderr (M_stopped jid)) (s1\<lparr>jobs := js\<rparr>))
              else bg_inner i pgid jid rest (s1\<lparr>jobs := js\<rparr>)))"
| "bg_inner i pgid jid (W_err e # rest) s =
     (let s1 = emit (E_waitpid 0 {}) s in
      if e = ECHILD then
        (case jobs_get_status jid (jobs s1) of
           None \<Rightarrow> (Return (- 1), s1)
         | Some st \<Rightarrow>
             (let s2 = bg_report jid st s1;
                  s3 = s2\<lparr>jobs := snd (jobs_remove_pgid pgid (jobs s2))\<rparr>
              in bg_outer (Suc i) rest s3))
      else (Return (- 1), s1))"

definition wait_on_bg_jobs :: "wait_result list \<Rightarrow> shell \<Rightarrow> ending \<times> shell" where
  "wait_on_bg_jobs ws s = bg_outer 0 ws s"

section \<open>Pipeline executor (\<^verbatim>\<open>runner.c\<close>, \<^verbatim>\<open>signal.c\<close>)\<close>

text \<open>
  The local \<^verbatim>\<open>pipeline_data\<close> of \<^verbatim>\<open>run_command_list\<close>: the read end left by the
  previous command (\<open>-1\<close> for none), the process group of the pipeline being built
  (0 for none yet) and its job id.
\<close>

record pipeline_data =
  pipe_fd :: int
  pgid :: int
  jid :: int

type_synonym builtin_fn = "command \<Rightarrow> builtin_redir list \<Rightarrow> int"

text \<open>
  What the environment answers while a command list runs; the index is the position
  of the command in the list.  \<open>expand\<close> and \<open>get_builtin\<close> are the collaborators of
  those names; a builtin is taken for its return value only (what else it does to the
  shell is not part of these files).  \<open>fork_res\<close> is what \<^verbatim>\<open>fork\<close> returns: negative
  on failure, the child's process id in the parent, and 0 when the run followed is that
  of the child.
\<close>

record world =
  expand :: "string \<Rightarrow> string"
  get_builtin :: "command \<Rightarrow> builtin_fn option"
  pipe_ok :: "nat \<Rightarrow> bool"
  fork_res :: "nat \<Rightarrow> int"
  setpgid_res :: "nat \<Rightarrow> nat \<Rightarrow> errno option"
  jobs_add_res :: "nat \<Rightarrow> int"
  fresh_status :: wstatus
  seed_malloc_ok :: "nat \<Rightarrow> nat \<Rightarrow> bool"
  redir_world :: "nat \<Rightarrow> rworld"
  vars_set_res :: "string \<Rightarrow> string \<Rightarrow> int"
  vars_export_res :: "string \<Rightarrow> int"
  sigaction_res :: "nat \<Rightarrow> signal \<Rightarrow> int"
  execvp_ok :: "nat \<Rightarrow> bool"
  wait_world :: "nat \<Rightarrow> wworld"

definition expand_command_words :: "world \<Rightarrow> command \<Rightarrow> command" where
  "expand_command_words w cmd =
     cmd\<lparr>words := map (expand w) (words cmd),
         assignments := map (\<lambda>a. a\<lparr>a_value := expand w (a_value a)\<rparr>) (assignments cmd),
         io_redirs := map (\<lambda>r. r\<lparr>filename := expand w (filename r)\<rparr>) (io_redirs cmd)\<rparr>"

fun assign_from :: "world \<Rightarrow> assignment list \<Rightarrow> bool \<Rightarrow> shell \<Rightarrow> int \<times> shell" where
  "assign_from w [] export_all s = (0, s)"
| "assign_from w (a # as) export_all s =
     (if vars_set_res w (a_name a) (a_value a) \<noteq> 0
      then (- 1, emit (E_vars_set (a_name a) (a_value a)) s)
      else if export_all then
        (if vars_export_res w (a_name a) \<noteq> 0
         then (- 1, emit (E_vars_export (a_name a)) (emit (E_vars_set (a_name a) (a_value a)) s))
         else assign_from w as export_all
                (emit (E_vars_export (a_name a)) (emit (E_vars_set (a_name a) (a_value a)) s)))
      else assign_from w as export_all (emit (E_vars_set (a_name a) (a_value a)) s))"

definition do_variable_assignment :: "world \<Rightarrow> command \<Rightarrow> bool \<Rightarrow> shell \<Rightarrow> int \<times> shell" where
  "do_variable_assignment w cmd export_all s = assign_from w (assignments cmd) export_all s"

text \<open>\<^verbatim>\<open>signal_restore\<close> of \<^verbatim>\<open>signal.c\<close>: three \<^verbatim>\<open>sigaction\<close> calls, the first failure ends it.\<close>

definition signal_restore :: "world \<Rightarrow> nat \<Rightarrow> shell \<Rightarrow> int \<times> shell" where
  "signal_restore w i s =
     (if sigaction_res w i SIGTSTP < 0 then (- 1, emit (E_sigaction_restore SIGTSTP) s)
      else if sigaction_res w i SIGTTOU < 0
        then (- 1, emit (E_sigaction_restore SIGTTOU) (emit (E_sigaction_restore SIGTSTP) s))
      else if sigaction_res w i SIGINT < 0
        then (- 1, emit (E_sigaction_restore SIGINT)
                     (emit (E_sigaction_restore SIGTTOU) (emit (E_sigaction_restore SIGTSTP) s)))
      else (0, emit (E_sigaction_restore SIGINT)
                 (emit (E_sigaction_restore SIGTTOU) (emit (E_sigaction_restore SIGTSTP) s))))"

subsection \<open>The steps of one iteration of \<^verbatim>\<open>run_command_list\<close>\<close>

text \<open>
  Pipe set-up: the two entries of \<^verbatim>\<open>pipe_fds\<close> and the state, or the early
  \<^verbatim>\<open>return -1\<close>.
\<close>

definition pipe_setup ::
  "world \<Rightarrow> nat \<Rightarrow> command \<Rightarrow> shell \<Rightarrow> (ending \<times> shell) + (int \<times> int \<times> shell)" where
  "pipe_setup w i cmd s =
     (if ctrl_op cmd = CHR ''|'' then
        (case sys_pipe (pipe_ok w i) i (fds s) of
           None \<Rightarrow> Inl (Return (- 1), emit (E_stderr (M_perror ''pipe'')) (emit E_pipe s))
         | Some (rd, wr, t) \<Rightarrow> Inr (rd, wr, (emit E_pipe s)\<lparr>fds := t\<rparr>))
      else Inr (- 1, - 1, s))"

text \<open>\<^verbatim>\<open>should_fork = !is_builtin || !is_fg\<close>.\<close>

definition should_fork :: "bool \<Rightarrow> bool \<Rightarrow> bool" where
  "should_fork is_builtin is_fg = (\<not> is_builtin \<or> \<not> is_fg)"

text \<open>
  \<^verbatim>\<open>setpgid(child_pid, pipeline_data.pgid)\<close> with the test that follows it: \<open>False\<close>
  is the jump to \<^verbatim>\<open>err\<close>.  A group of 0 puts the process into a group of its own.
  \<^verbatim>\<open>EACCES\<close> is the lost race the code ignores: the other side has made the same call
  already, so the process is in the group all the same.
\<close>

definition assign_group :: "errno option \<Rightarrow> int \<Rightarrow> int \<Rightarrow> shell \<Rightarrow> bool \<times> shell" where
  "assign_group res child_pid pg s =
     (if res = None \<or> res = Some EACCES
      then (True, (emit (E_setpgid child_pid pg) s)
                    \<lparr>procs := (procs s)(child_pid \<mapsto> (if pg = 0 then child_pid else pg))\<rparr>)
      else (False, emit (E_setpgid child_pid pg) s))"

text \<open>
  The code under \<^verbatim>\<open>if (should_fork)\<close> and \<^verbatim>\<open>if (did_fork)\<close>: \<^verbatim>\<open>child_pid\<close>, the
  pipeline data and the state, or the way the function ends.
\<close>

definition spawn ::
  "world \<Rightarrow> nat \<Rightarrow> pipeline_data \<Rightarrow> shell
     \<Rightarrow> (ending \<times> shell) + (int \<times> pipeline_data \<times> shell)" where
  "spawn w i pd s =
     (if fork_res w i < 0
      then Inl (Return (- 1), emit (E_stderr (M_perror ''fork'')) (emit E_fork s))
      else
        (case assign_group (setpgid_res w i 0) (fork_res w i) (pgid pd) (emit E_fork s) of
           (ok1, s1) \<Rightarrow>
             if \<not> ok1 then Inl (Return (- 1), s1)
             else
               (case assign_group (setpgid_res w i 1) (fork_res w i) (pgid pd) s1 of
                  (ok2, s2) \<Rightarrow>
                    if \<not> ok2 then Inl (Return (- 1), s2)
                    else if fork_res w i \<noteq> 0 \<and> pgid pd = 0 then
                      (if procs s2 (fork_res w i) \<noteq> Some (fork_res w i) then Inl (Abort, s2)
                       else
                         (case jobs_add (jobs_add_res w i) (fresh_status w) (fork_res w i) (jobs s2) of
                            (j, js) \<Rightarrow>
                              if j < 0
                              then Inl (Return (- 1), (emit (E_jobs_add (fork_res w i)) s2)\<lparr>jobs := js\<rparr>)
                              else Inr (fork_res w i, pd\<lparr>pgid := fork_res w i, jid := j\<rparr>,
                                        (emit (E_jobs_add (fork_res w i)) s2)\<lparr>jobs := js\<rparr>)))
                    else Inr (fork_res w i, pd, s2))))"

text \<open>The records for the pipe ends, or \<open>None\<close> when a \<^verbatim>\<open>malloc\<close> fails.\<close>

definition seed_redirs :: "world \<Rightarrow> nat \<Rightarrow> int \<Rightarrow> int \<Rightarrow> builtin_redir list option" where
  "seed_redirs w i upstream_pipefd downstream_pipefd =
     (if upstream_pipefd \<ge> 0 \<and> \<not> seed_malloc_ok w i 0 then None
      else if downstream_pipefd \<ge> 0 \<and> \<not> seed_malloc_ok w i 1 then None
      else Some ((if downstream_pipefd \<ge> 0 then [\<lparr>pseudofd = 1, realfd = downstream_pipefd\<rparr>] else [])
                 @ (if upstream_pipefd \<ge> 0 then [\<lparr>pseudofd = 0, realfd = upstream_pipefd\<rparr>] else [])))"

text \<open>The clean-up loop \<^verbatim>\<open>while (redir_list)\<close>: it leaves the list empty.\<close>

fun close_redirs :: "builtin_redir list \<Rightarrow> fdtable \<Rightarrow> fdtable" where
  "close_redirs [] t = t"
| "close_redirs (r # rs) t = close_redirs rs (snd (sys_close (realfd r) t))"

text \<open>
  The branch \<^verbatim>\<open>if (is_builtin)\<close>: \<open>None\<close> is falling through to \<^verbatim>\<open>continue\<close>.  The
  results of \<^verbatim>\<open>do_builtin_io_redirects\<close> and \<^verbatim>\<open>do_variable_assignment\<close> are not
  looked at.
\<close>

definition builtin_branch ::
  "world \<Rightarrow> nat \<Rightarrow> command \<Rightarrow> builtin_fn \<Rightarrow> int \<Rightarrow> int \<Rightarrow> shell \<Rightarrow> ending option \<times> shell" where
  "builtin_branch w i cmd builtin upstream_pipefd downstream_pipefd s =
     (case seed_redirs w i upstream_pipefd downstream_pipefd of
        None \<Rightarrow> (Some (Return (- 1)), s)
      | Some l0 \<Rightarrow>
          (case do_builtin_io_redirects (redir_world w i) cmd (fds s, l0) of
             (rstatus, t1, l1) \<Rightarrow>
               (case do_variable_assignment w cmd False (s\<lparr>fds := t1\<rparr>) of
                  (vstatus, s2) \<Rightarrow>
                    (let s3 = emit (E_builtin cmd l1) s2;
                         s4 = s3\<lparr>fds := close_redirs l1 (fds s3)\<rparr>;
                         s5 = s4\<lparr>params_status := (if builtin cmd l1 \<noteq> 0 then 127 else 0)\<rparr>
                     in if ctrl_op cmd \<noteq> CHR '';'' then (Some (Exit (params_status s5)), s5)
                        else (None, s5)))))"

text \<open>\<^verbatim>\<open>if (pipefd >= 0) { if (move_fd(pipefd, target) < 0) ... }\<close>\<close>

definition attach_pipe :: "int \<Rightarrow> int \<Rightarrow> fdtable \<Rightarrow> int \<times> fdtable" where
  "attach_pipe pipefd target t = (if pipefd \<ge> 0 then move_fd pipefd target t else (0, t))"

text \<open>The branch for an external command: it ends the process or replaces its image.\<close>

definition external_branch ::
  "world \<Rightarrow> nat \<Rightarrow> command \<Rightarrow> int \<Rightarrow> int \<Rightarrow> shell \<Rightarrow> ending \<times> shell" where
  "external_branch w i cmd upstream_pipefd downstream_pipefd s =
     (case attach_pipe upstream_pipefd 0 (fds s) of
        (rc1, t1) \<Rightarrow>
          if rc1 < 0 then (Exit 1, s\<lparr>fds := t1\<rparr>)
          else
            (case attach_pipe downstream_pipefd 1 t1 of
               (rc2, t2) \<Rightarrow>
                 if rc2 < 0 then (Exit 1, s\<lparr>fds := t2\<rparr>)
                 else
                   (case do_io_redirects (redir_world w i) cmd t2 of
                      (rc3, t3) \<Rightarrow>
                        if rc3 < 0 then (Exit 1, s\<lparr>fds := t3\<rparr>)
                        else
                          (case do_variable_assignment w cmd True (s\<lparr>fds := t3\<rparr>) of
                             (rc4, s4) \<Rightarrow>
                               if rc4 < 0 then (Exit 1, s4)
                               else
                                 (case signal_restore w i s4 of
                                    (rc5, s5) \<Rightarrow>
                                      if rc5 < 0 then (Exit 1, s5)
                                      else if execvp_ok w i
                                        then (Exec (words cmd), emit (E_execvp (words cmd)) s5)
                                        else (Exit 127, emit (E_execvp (words cmd)) s5))))))"

text \<open>
  The code after \<^verbatim>\<open>if (child_pid == 0) continue;\<close>, reached by a parent only:
  closing the pipe ends, waiting or not, and the reset after a command that is not a
  pipeline stage.
\<close>

definition close_if_open :: "int \<Rightarrow> shell \<Rightarrow> shell" where
  "close_if_open fd s = (if fd \<ge> 0 then s\<lparr>fds := snd (sys_close fd (fds s))\<rparr> else s)"

definition end_of_command :: "command \<Rightarrow> pipeline_data \<Rightarrow> shell \<Rightarrow> ending option \<times> pipeline_data \<times> shell" where
  "end_of_command cmd pd s =
     (if ctrl_op cmd \<noteq> CHR ''|'' then
        (if pipe_fd pd \<noteq> - 1 then (Some Abort, pd, s)
         else (None, pd\<lparr>pgid := 0, jid := - 1\<rparr>, s))
      else (None, pd, s))"

definition parent_branch ::
  "world \<Rightarrow> nat \<Rightarrow> command \<Rightarrow> int \<Rightarrow> int \<Rightarrow> int \<Rightarrow> pipeline_data \<Rightarrow> shell
     \<Rightarrow> ending option \<times> pipeline_data \<times> shell" where
  "parent_branch w i cmd child_pid upstream_pipefd downstream_pipefd pd s =
     (if \<not> child_pid > 0 then (Some Abort, pd, s)
      else
        (let s1 = close_if_open upstream_pipefd (close_if_open downstream_pipefd s) in
         if ctrl_op cmd = CHR '';'' then
           (case wait_on_fg_pgid (wait_world w i) (pgid pd) s1 of
              (Return fg_wait_result, s2) \<Rightarrow>
                if fg_wait_result < 0 then
                  (if params_status s2 \<noteq> 127 then (Some (Return 0), pd, s2)
                   else (Some (Return (- 1)), pd, (emit (E_stderr M_warn) s2)\<lparr>params_status := 127\<rparr>))
                else end_of_command cmd pd s2
            | (e, s2) \<Rightarrow> (Some e, pd, s2))
         else
           end_of_command cmd pd
             ((if ctrl_op cmd = CHR ''&''
               then emit (E_stderr (M_started (jid pd) (pgid pd))) (s1\<lparr>params_bg_pid := child_pid\<rparr>)
               else s1\<lparr>params_bg_pid := child_pid\<rparr>)\<lparr>params_status := 0\<rparr>)))"

subsection \<open>\<^verbatim>\<open>run_command_list\<close>\<close>

text \<open>
  One iteration of the loop over the commands: \<open>None\<close> goes on to the next command
  with the pipeline data and state given, \<open>Some e\<close> ends the function.
\<close>

definition run_command ::
  "world \<Rightarrow> nat \<Rightarrow> command \<Rightarrow> pipeline_data \<Rightarrow> shell
     \<Rightarrow> ending option \<times> pipeline_data \<times> shell" where
  "run_command w i cmd0 pd s =
     (let cmd = expand_command_words w cmd0;
          is_pl = (ctrl_op cmd = CHR ''|'');
          is_bg = (ctrl_op cmd = CHR ''&'');
          is_fg = (ctrl_op cmd = CHR '';'');
          upstream_pipefd = pipe_fd pd
      in if \<not> (is_pl \<or> is_bg \<or> is_fg) then (Some Abort, pd, s)
         else
           (case pipe_setup w i cmd s of
              Inl (e, s1) \<Rightarrow> (Some e, pd, s1)
            | Inr (rd, downstream_pipefd, s1) \<Rightarrow>
                (let pd1 = pd\<lparr>pipe_fd := rd\<rparr>;
                     builtin = get_builtin w cmd;
                     is_builtin = (builtin \<noteq> None)
                 in case (if should_fork is_builtin is_fg then spawn w i pd1 s1
                          else Inr (0, pd1, s1)) of
                      Inl (e, s2) \<Rightarrow> (Some e, pd1, s2)
                    | Inr (child_pid, pd2, s2) \<Rightarrow>
                        if child_pid = 0 then
                          (case builtin of
                             Some f \<Rightarrow>
                               (case builtin_branch w i cmd f upstream_pipefd downstream_pipefd s2 of
                                  (e, s3) \<Rightarrow> (e, pd2, s3))
                           | None \<Rightarrow>
                               (case external_branch w i cmd upstream_pipefd downstream_pipefd s2 of
                                  (e, s3) \<Rightarrow> (Some e, pd2, s3)))
                        else parent_branch w i cmd child_pid upstream_pipefd downstream_pipefd pd2 s2)))"

fun run_commands_from ::
  "world \<Rightarrow> nat \<Rightarrow> command list \<Rightarrow> pipeline_data \<Rightarrow> shell \<Rightarrow> ending \<times> shell" where
  "run_commands_from w i [] pd s = (Return 0, s)"
| "run_commands_from w i (c # cs) pd s =
     (case run_command w i c pd s of
        (Some e, pd1, s1) \<Rightarrow> (e, s1)
      | (None, pd1, s1) \<Rightarrow> run_commands_from w (Suc i) cs pd1 s1)"

definition run_command_list :: "world \<Rightarrow> command list \<Rightarrow> shell \<Rightarrow> ending \<times> shell" where
  "run_command_list w cl s =
     run_commands_from w 0 cl \<lparr>pipe_fd = - 1, pgid = 0, jid = - 1\<rparr> s"


section \<open>Predicates used in the statements\<close>

text \<open>The calls of \<^verbatim>\<open>fork\<close> in a trace.\<close>

fun is_fork :: "event \<Rightarrow> bool" where
  "is_fork E_fork = True"
| "is_fork e = False"

text \<open>
  The events by which a process runs the body of a command itself: the call of a
  builtin function, and \<^verbatim>\<open>execvp\<close>.
\<close>

fun is_command_run :: "event \<Rightarrow> bool" where
  "is_command_run (E_builtin c l) = True"
| "is_command_run (E_execvp ws) = True"
| "is_command_run e = False"

text \<open>The registrations with the job table.\<close>

fun is_jobs_add :: "event \<Rightarrow> bool" where
  "is_jobs_add (E_jobs_add p) = True"
| "is_jobs_add e = False"

text \<open>
  The calls that make processes and put them into groups and jobs: \<^verbatim>\<open>fork\<close>,
  \<^verbatim>\<open>setpgid\<close> and \<^verbatim>\<open>jobs_add\<close>.
\<close>

fun is_group_event :: "event \<Rightarrow> bool" where
  "is_group_event E_fork = True"
| "is_group_event (E_setpgid p g) = True"
| "is_group_event (E_jobs_add p) = True"
| "is_group_event e = False"

text \<open>
  A selection of events that holds none of the events of the wait protocol, of the
  error stream or of \<^verbatim>\<open>pipe\<close>.
\<close>

definition wait_blind :: "(event \<Rightarrow> bool) \<Rightarrow> bool" where
  "wait_blind P = ((\<forall>a. \<not> P (E_kill_cont a)) \<and> (\<forall>a b. \<not> P (E_tcsetpgrp a b))
      \<and> (\<forall>a b. \<not> P (E_waitpid a b)) \<and> (\<forall>m. \<not> P (E_stderr m)) \<and> \<not> P E_pipe)"

text \<open>
  A selection of events that holds none of the events a process makes while it runs
  the body of a command: the call of a builtin, the variable assignments, putting the
  signal dispositions back, and \<^verbatim>\<open>execvp\<close>.
\<close>

definition body_blind :: "(event \<Rightarrow> bool) \<Rightarrow> bool" where
  "body_blind P = ((\<forall>c l. \<not> P (E_builtin c l)) \<and> (\<forall>n v. \<not> P (E_vars_set n v))
      \<and> (\<forall>n. \<not> P (E_vars_export n)) \<and> (\<forall>sg. \<not> P (E_sigaction_restore sg))
      \<and> (\<forall>ws. \<not> P (E_execvp ws)))"

text \<open>
  A result of \<^verbatim>\<open>waitpid\<close> after which the foreground loop goes round again: a child
  that changed state without stopping, or an interrupted call.
\<close>

fun reaped_running :: "wait_result \<Rightarrow> bool" where
  "reaped_running (W_pid p st) = (p > 0 \<and> \<not> WIFSTOPPED st)"
| "reaped_running (W_err e) = (e = EINTR)"

text \<open>The status last recorded for the job once these results have been seen.\<close>

fun last_recorded :: "wstatus \<Rightarrow> wait_result list \<Rightarrow> wstatus" where
  "last_recorded st [] = st"
| "last_recorded st (W_pid p st' # ws) = last_recorded st' ws"
| "last_recorded st (W_err e # ws) = last_recorded st ws"

text \<open>
  The shell's exit status for a wait status: the exit code of a normal exit, 128 plus
  the signal number of a termination by signal, and the old value otherwise.
\<close>

fun exit_status_of :: "wstatus \<Rightarrow> int \<Rightarrow> int" where
  "exit_status_of (Exited c) old = c"
| "exit_status_of (Signaled sg) old = 128 + sg"
| "exit_status_of st old = old"

definition restore_message :: message where
  "restore_message = M_perror ''Failed to restore BigShell as foreground process group''"

text \<open>The operator a duplicating operator degrades to: \<^verbatim>\<open>>&\<close> to \<^verbatim>\<open>>\<close>, \<^verbatim>\<open><&\<close> to \<^verbatim>\<open><\<close>.\<close>

fun plain_op :: "io_operator \<Rightarrow> io_operator" where
  "plain_op OP_GREATAND = OP_GREAT"
| "plain_op OP_LESSAND = OP_LESS"
| "plain_op op = op"

text \<open>A non-empty string of decimal digits; \<open>decimal 0\<close> is its value.\<close>

definition all_digits :: "string \<Rightarrow> bool" where
  "all_digits s = (s \<noteq> [] \<and> list_all isdigit s)"

text \<open>The least value of a C \<^verbatim>\<open>int\<close>.\<close>

definition INT_MIN :: int where
  "INT_MIN = - 2147483648"








text \<open>
  The standard descriptors 0, 1 and 2: all three are open; they are the same in two
  tables; a descriptor number is none of them.
\<close>

definition std_open :: "fdtable \<Rightarrow> bool" where
  "std_open t = (fd_lookup t 0 \<noteq> None \<and> fd_lookup t 1 \<noteq> None \<and> fd_lookup t 2 \<noteq> None)"

definition std_same :: "fdtable \<Rightarrow> fdtable \<Rightarrow> bool" where
  "std_same t t' = (fd_lookup t' 0 = fd_lookup t 0 \<and> fd_lookup t' 1 = fd_lookup t 1
      \<and> fd_lookup t' 2 = fd_lookup t 2)"

definition not_std :: "int \<Rightarrow> bool" where
  "not_std fd = (fd < 0 \<or> 2 < fd)"

text \<open>No record of the virtual table has a standard descriptor as its real descriptor.\<close>

definition realfds_not_std :: "builtin_redir list \<Rightarrow> bool" where
  "realfds_not_std l = list_all (\<lambda>r. not_std (realfd r)) l"


section \<open>Concrete inputs\<close>

text \<open>
  A process with a limit of eight descriptors, its three standard descriptors open and
  nothing else, the shell state that goes with it, and an environment in which every
  call succeeds: \<^verbatim>\<open>cd\<close> is the one builtin, command \<open>i\<close> is forked as process
  \<open>100 + i\<close>, and a foreground wait reaps one process before it sees \<^verbatim>\<open>ECHILD\<close>.
\<close>

definition stdio :: fdtable where
  "stdio = [Some (Inherited 0), Some (Inherited 1), Some (Inherited 2),
            None, None, None, None, None]"

definition shell0 :: shell where
  "shell0 = \<lparr>params_status = 0, params_bg_pid = 0, fds = stdio, jobs = [],
             procs = Map.empty, tty_fg = 50, trace = []\<rparr>"

definition rw_ok :: rworld where
  "rw_ok = \<lparr>open_ok = (\<lambda>i. True), malloc_ok = (\<lambda>i. True)\<rparr>"

definition rw_first_open_fails :: rworld where
  "rw_first_open_fails = \<lparr>open_ok = (\<lambda>i. i \<noteq> 0), malloc_ok = (\<lambda>i. True)\<rparr>"

definition ww_ok :: wworld where
  "ww_ok = \<lparr>is_interactive = True, shell_pgid = 50, kill_res = None, tcset_res = None,
            tcrestore_res = None, waits = [W_pid 100 (Exited 0), W_err ECHILD]\<rparr>"

definition cd_builtin :: builtin_fn where
  "cd_builtin c l = 0"

definition world_ok :: world where
  "world_ok = \<lparr>expand = (\<lambda>x. x),
     get_builtin = (\<lambda>c. if words c = [''cd''] then Some cd_builtin else None),
     pipe_ok = (\<lambda>i. True), fork_res = (\<lambda>i. 100 + int i), setpgid_res = (\<lambda>i k. None),
     jobs_add_res = (\<lambda>i. int i), fresh_status = Unclassified 0,
     seed_malloc_ok = (\<lambda>i k. True), redir_world = (\<lambda>i. rw_ok),
     vars_set_res = (\<lambda>n v. 0), vars_export_res = (\<lambda>n. 0), sigaction_res = (\<lambda>i sg. 0),
     execvp_ok = (\<lambda>i. True), wait_world = (\<lambda>i. ww_ok)\<rparr>"

text \<open>\<^verbatim>\<open>cd < missing > out ;\<close>\<close>

definition cd_two_redirs :: command where
  "cd_two_redirs = \<lparr>words = [''cd''], assignments = [],
     io_redirs = [\<lparr>io_op = OP_LESS, io_number = 0, filename = ''missing''\<rparr>,
                  \<lparr>io_op = OP_GREAT, io_number = 1, filename = ''out''\<rparr>],
     ctrl_op = CHR '';''\<rparr>"

text \<open>\<^verbatim>\<open>cd 1>&- 2>&1 |\<close>\<close>

definition cd_close_then_dup :: command where
  "cd_close_then_dup = \<lparr>words = [''cd''], assignments = [],
     io_redirs = [\<lparr>io_op = OP_GREATAND, io_number = 1, filename = ''-''\<rparr>,
                  \<lparr>io_op = OP_GREATAND, io_number = 2, filename = ''1''\<rparr>],
     ctrl_op = CHR ''|''\<rparr>"

text \<open>One background job, process group 1234, whose process has exited with status 0.\<close>

definition one_job :: "job list" where
  "one_job = [\<lparr>job_jid = 0, job_pgid = 1234, job_status = Exited 0\<rparr>]"

text \<open>The pipeline data at the start of a command list, and a command of one word.\<close>

definition pd0 :: pipeline_data where
  "pd0 = \<lparr>pipe_fd = - 1, pgid = 0, jid = - 1\<rparr>"

definition simple :: "string \<Rightarrow> char \<Rightarrow> command" where
  "simple name c = \<lparr>words = [name], assignments = [], io_redirs = [], ctrl_op = c\<rparr>"

text \<open>A foreground wait whose \<^verbatim>\<open>kill\<close> finds the process group gone.\<close>

definition ww_gone :: wworld where
  "ww_gone = \<lparr>is_interactive = True, shell_pgid = 50, kill_res = Some ESRCH, tcset_res = None,
            tcrestore_res = None, waits = []\<rparr>"

text \<open>
  The job of process group 100, and a foreground wait that is interrupted once, then
  reaps a process killed by signal 9, then sees \<^verbatim>\<open>ECHILD\<close>.
\<close>

definition job100 :: "job list" where
  "job100 = [\<lparr>job_jid = 0, job_pgid = 100, job_status = Unclassified 0\<rparr>]"

definition ww_killed :: wworld where
  "ww_killed = \<lparr>is_interactive = True, shell_pgid = 50, kill_res = None, tcset_res = None,
            tcrestore_res = None, waits = [W_err EINTR, W_pid 100 (Signaled 9), W_err ECHILD]\<rparr>"

text \<open>
  \<^verbatim>\<open>cd > out ;\<close> as the last stage of a pipeline: the shell holds the read end of the
  pipe as descriptor 3.
\<close>

definition cd_out :: command where
  "cd_out = \<lparr>words = [''cd''], assignments = [],
     io_redirs = [\<lparr>io_op = OP_GREAT, io_number = 1, filename = ''out''\<rparr>],
     ctrl_op = CHR '';''\<rparr>"

definition shell_piped :: shell where
  "shell_piped = shell0\<lparr>fds := stdio[3 := Some (PipeRead 0)]\<rparr>"

text \<open>A foreground wait whose \<^verbatim>\<open>waitpid\<close> fails with an error that is not expected.\<close>

definition ww_wait_fails :: wworld where
  "ww_wait_fails = \<lparr>is_interactive = True, shell_pgid = 50, kill_res = None, tcset_res = None,
            tcrestore_res = None, waits = [W_err EOTHER]\<rparr>"



text \<open>
  A shell that was started with descriptor 0 closed, and the state it is in after
  \<^verbatim>\<open>ls |\<close>: the read end of the pipe is descriptor 0.
\<close>

definition shell_no_stdin :: shell where
  "shell_no_stdin = shell0\<lparr>fds := stdio[0 := None]\<rparr>"

definition shell_stdin_pipe :: shell where
  "shell_stdin_pipe = \<lparr>params_status = 0, params_bg_pid = 100,
     fds = stdio[0 := Some (PipeRead 0)],
     jobs = [\<lparr>job_jid = 0, job_pgid = 100, job_status = Unclassified 0\<rparr>],
     procs = [100 \<mapsto> 100], tty_fg = 50,
     trace = [E_pipe, E_fork, E_setpgid 100 0, E_setpgid 100 0, E_jobs_add 100]\<rparr>"

section \<open>Properties of the execution core\<close>


subsection \<open>How the functions extend the trace\<close>

lemma trace_emit [simp]: "trace (emit e s) = trace s @ [e]"
  by (simp add: emit_def)

lemma emit_fields [simp]:
  "fds (emit e s) = fds s" "jobs (emit e s) = jobs s" "procs (emit e s) = procs s"
  "params_status (emit e s) = params_status s" "tty_fg (emit e s) = tty_fg s"
  "params_bg_pid (emit e s) = params_bg_pid s"
  by (simp_all add: emit_def)

lemma trace_set_exit_status [simp]: "trace (set_exit_status st s) = trace s"
  by (cases st) simp_all

lemma wait_blind_simps [simp]:
  "wait_blind is_fork" "wait_blind is_command_run" "wait_blind is_jobs_add"
  "wait_blind is_group_event"
  by (simp_all add: wait_blind_def)

lemma body_blind_simps [simp]:
  "body_blind is_fork" "body_blind is_jobs_add" "body_blind is_group_event"
  by (simp_all add: body_blind_def)





lemma close_if_open_trace [simp]: "trace (close_if_open fd s) = trace s"
  by (simp add: close_if_open_def)

lemma end_of_command_state [simp]: "snd (snd (end_of_command cmd pd s)) = s"
  by (simp add: end_of_command_def)




lemma assign_from_run:
  "filter is_command_run (trace (snd (assign_from w as ex s))) = filter is_command_run (trace s)"
  by (cases ex; induction as arbitrary: s; simp)


lemma do_variable_assignment_run:
  "do_variable_assignment w cmd ex s = (r, s') \<Longrightarrow>
     filter is_command_run (trace s') = filter is_command_run (trace s)"
  using assign_from_run [of w "assignments cmd" ex s] by (simp add: do_variable_assignment_def)









lemma external_branch_run:
  "filter is_command_run (trace (snd (external_branch w i cmd up down s)))
     = filter is_command_run (trace s)
   \<or> filter is_command_run (trace (snd (external_branch w i cmd up down s)))
     = filter is_command_run (trace s) @ [E_execvp (words cmd)]"
proof -
  obtain rc1 t1 where m1: "attach_pipe up 0 (fds s) = (rc1, t1)"
    by (cases "attach_pipe up 0 (fds s)") auto
  obtain rc2 t2 where m2: "attach_pipe down 1 t1 = (rc2, t2)"
    by (cases "attach_pipe down 1 t1") auto
  obtain rc3 t3 where d: "do_io_redirects (redir_world w i) cmd t2 = (rc3, t3)"
    by (cases "do_io_redirects (redir_world w i) cmd t2") auto
  obtain rc4 s4 where a: "do_variable_assignment w cmd True (s\<lparr>fds := t3\<rparr>) = (rc4, s4)"
    by (cases "do_variable_assignment w cmd True (s\<lparr>fds := t3\<rparr>)") auto
  obtain rc5 s5 where r: "signal_restore w i s4 = (rc5, s5)"
    by (cases "signal_restore w i s4") auto
  have f4: "filter is_command_run (trace s4) = filter is_command_run (trace s)"
    using do_variable_assignment_run [OF a] by simp
  have f5: "filter is_command_run (trace s5) = filter is_command_run (trace s4)"
    using r by (auto simp: signal_restore_def split: if_splits)
  show ?thesis
    by (simp add: external_branch_def m1 m2 d a r f4 f5)
qed






lemma spawn_pid: "spawn w i pd s = Inr (p, pd', s') \<Longrightarrow> p = fork_res w i"
  by (auto simp: spawn_def split: if_splits prod.splits)


lemma spawn_nonneg: "spawn w i pd s = Inr (p, pd', s') \<Longrightarrow> 0 \<le> fork_res w i"
  by (auto simp: spawn_def split: if_splits prod.splits)




lemma ctrl_op_expand [simp]: "ctrl_op (expand_command_words w cmd) = ctrl_op cmd"
  by (simp add: expand_command_words_def)




lemma pipe_setup_none:
  "ctrl_op cmd \<noteq> CHR ''|'' \<Longrightarrow> pipe_setup w i cmd s = Inr (- 1, - 1, s)"
  by (simp add: pipe_setup_def)

lemmas runner_defs = run_command_def expand_command_words_def
  pipe_setup_def sys_pipe_def should_fork_def spawn_def assign_group_def jobs_add_def
  builtin_branch_def seed_redirs_def do_builtin_io_redirects_def do_variable_assignment_def
  parent_branch_def end_of_command_def close_if_open_def sys_close_def fd_lookup_def
  fd_install_def emit_def Let_def

lemmas example_defs = world_ok_def shell0_def stdio_def simple_def pd0_def rw_ok_def ww_ok_def
  cd_builtin_def ww_gone_def


subsection \<open>The fork decision\<close>






subsection \<open>Process groups and job registration\<close>







lemma fg_out_procs [simp]: "procs (snd (fg_out w r s)) = procs s"
  by (simp add: fg_out_def split: option.splits)

lemma set_exit_status_procs [simp]: "procs (set_exit_status st s) = procs s"
  by (cases st) simp_all

lemma fg_wait_loop_procs [simp]: "procs (snd (fg_wait_loop w pg jd ws s)) = procs s"
proof (induction ws arbitrary: s)
  case Nil
  then show ?case by simp
next
  case (Cons r ws)
  show ?case
  proof (cases r)
    case (W_pid p st)
    then show ?thesis using Cons.IH by (simp add: Let_def split: prod.splits)
  next
    case (W_err x)
    then show ?thesis using Cons.IH by (simp add: Let_def split: option.splits)
  qed
qed


lemma close_if_open_procs [simp]: "procs (close_if_open fd s) = procs s"
  by (simp add: close_if_open_def)

















subsection \<open>The foreground wait\<close>

lemma fg_out_restores:
  assumes "is_interactive w" "fg_out w r s = (e, s')"
  shows "(\<exists>pre. trace s' = pre @ E_tcsetpgrp 0 (shell_pgid w)
              # (if tcrestore_res w = None then [] else [E_stderr restore_message]))
       \<and> (tcrestore_res w = None \<longrightarrow> tty_fg s' = shell_pgid w)"
  using assms by (auto simp: fg_out_def restore_message_def split: option.splits)

lemma fg_wait_loop_restores:
  assumes "is_interactive w" "fg_wait_loop w pg jd ws s = (Return r, s')"
  shows "(\<exists>pre. trace s' = pre @ E_tcsetpgrp 0 (shell_pgid w)
              # (if tcrestore_res w = None then [] else [E_stderr restore_message]))
       \<and> (tcrestore_res w = None \<longrightarrow> tty_fg s' = shell_pgid w)"
  using assms(2)
proof (induction ws arbitrary: s)
  case Nil
  then show ?case by simp
next
  case (Cons a ws)
  show ?case
  proof (cases a)
    case (W_pid p st)
    show ?thesis
    proof (cases "p = 0")
      case True
      then show ?thesis using Cons.prems W_pid by simp
    next
      case False
      obtain rc js where sj: "jobs_set_status jd st (jobs s) = (rc, js)"
        by (cases "jobs_set_status jd st (jobs s)") auto
      show ?thesis
      proof (cases "rc < 0 \<or> WIFSTOPPED st")
        case True
        then show ?thesis
          using Cons.prems W_pid False sj fg_out_restores [OF assms(1)]
          by (auto simp: Let_def split: if_splits)
      next
        case nf: False
        then show ?thesis
          using Cons.prems W_pid False sj Cons.IH by (simp add: Let_def)
      qed
    qed
  next
    case (W_err x)
    show ?thesis
    proof (cases "x = EINTR")
      case True
      then show ?thesis using Cons.prems W_err Cons.IH by (simp add: Let_def)
    next
      case False
      then show ?thesis
        using Cons.prems W_err fg_out_restores [OF assms(1)]
        by (auto simp: Let_def split: if_splits option.splits)
    qed
  qed
qed

text \<open>
  C4, as the code has it.  The restoration belongs to the part of \<^verbatim>\<open>wait_on_fg_pgid\<close>
  after the terminal has been handed over ("from this point on ... no naked return
  statements"): when the shell is interactive and the job is known, the \<^verbatim>\<open>kill\<close> and
  the first \<^verbatim>\<open>tcsetpgrp\<close> have succeeded, then on every path on which the function
  returns, with success or failure, its last system call is
  \<^verbatim>\<open>tcsetpgrp(STDIN_FILENO, getpgid(0))\<close> (followed only by the report of that call's
  own failure), and when that call succeeds the terminal's foreground group is the
  shell's.
\<close>

theorem fg_wait_restores_terminal:
  assumes "is_interactive w"
    and "0 \<le> pg" and "0 \<le> jobs_get_jid pg (jobs s)"
    and "kill_res w = None" and "tcset_res w = None"
    and "wait_on_fg_pgid w pg s = (Return r, s')"
  shows "(\<exists>pre. trace s' = pre @ E_tcsetpgrp 0 (shell_pgid w)
              # (if tcrestore_res w = None then [] else [E_stderr restore_message]))
       \<and> (tcrestore_res w = None \<longrightarrow> tty_fg s' = shell_pgid w)"
proof -
  have "fg_wait_loop w pg (jobs_get_jid pg (jobs s)) (waits w)
          ((emit (E_tcsetpgrp 0 pg) (emit (E_kill_cont (- pg)) s))\<lparr>tty_fg := pg\<rparr>) = (Return r, s')"
    using assms by (simp add: wait_on_fg_pgid_def)
  then show ?thesis by (rule fg_wait_loop_restores [OF assms(1)])
qed

text \<open>
  C4 as stated fails on the returns before that point: with an interactive shell and a
  job whose process group is gone (\<^verbatim>\<open>kill\<close> fails with \<^verbatim>\<open>ESRCH\<close>), the function
  returns \<open>-1\<close> and no \<^verbatim>\<open>tcsetpgrp\<close> call has been made.
\<close>

theorem fg_wait_early_return_counterexample:
  "is_interactive ww_gone
   \<and> wait_on_fg_pgid ww_gone 1234 (shell0\<lparr>jobs := one_job\<rparr>)
     = (Return (- 1),
        shell0\<lparr>jobs := one_job, trace := [E_kill_cont (- 1234), E_stderr (M_job_gone 0)]\<rparr>)"
  by (simp add: wait_on_fg_pgid_def jobs_get_jid_def ww_gone_def one_job_def shell0_def emit_def)

theorem fg_wait_restores_terminal_witness:
  "is_interactive ww_killed
   \<and> fst (wait_on_fg_pgid ww_killed 100 (shell0\<lparr>jobs := job100, tty_fg := 100\<rparr>)) = Return 0
   \<and> last (trace (snd (wait_on_fg_pgid ww_killed 100 (shell0\<lparr>jobs := job100, tty_fg := 100\<rparr>))))
       = E_tcsetpgrp 0 50
   \<and> tty_fg (snd (wait_on_fg_pgid ww_killed 100 (shell0\<lparr>jobs := job100, tty_fg := 100\<rparr>))) = 50
   \<and> is_interactive ww_wait_fails
   \<and> fst (wait_on_fg_pgid ww_wait_fails 100 (shell0\<lparr>jobs := job100, tty_fg := 100\<rparr>)) = Return (- 1)
   \<and> last (trace (snd (wait_on_fg_pgid ww_wait_fails 100 (shell0\<lparr>jobs := job100, tty_fg := 100\<rparr>))))
       = E_tcsetpgrp 0 50
   \<and> tty_fg (snd (wait_on_fg_pgid ww_wait_fails 100 (shell0\<lparr>jobs := job100, tty_fg := 100\<rparr>))) = 50"
proof -
  let ?s = "shell0\<lparr>jobs := job100, tty_fg := 100\<rparr>"
  have h1: "is_interactive ww_killed" by (simp add: ww_killed_def)
  have h2: "(0::int) \<le> 100" by simp
  have h3: "0 \<le> jobs_get_jid 100 (jobs ?s)" by (simp add: jobs_get_jid_def job100_def)
  have h4: "kill_res ww_killed = None" by (simp add: ww_killed_def)
  have h5: "tcset_res ww_killed = None" by (simp add: ww_killed_def)
  have h6: "wait_on_fg_pgid ww_killed 100 ?s
      = (Return 0, snd (wait_on_fg_pgid ww_killed 100 ?s))"
    by (simp add: wait_on_fg_pgid_def jobs_get_jid_def jobs_set_status_def jobs_get_status_def
        job100_def ww_killed_def fg_out_def Let_def)
  have r: "tcrestore_res ww_killed = None" "shell_pgid ww_killed = 50" by (simp_all add: ww_killed_def)
  have g1: "is_interactive ww_wait_fails" by (simp add: ww_wait_fails_def)
  have g4: "kill_res ww_wait_fails = None" by (simp add: ww_wait_fails_def)
  have g5: "tcset_res ww_wait_fails = None" by (simp add: ww_wait_fails_def)
  have g6: "wait_on_fg_pgid ww_wait_fails 100 ?s
      = (Return (- 1), snd (wait_on_fg_pgid ww_wait_fails 100 ?s))"
    by (simp add: wait_on_fg_pgid_def jobs_get_jid_def job100_def ww_wait_fails_def fg_out_def
        Let_def)
  have q: "tcrestore_res ww_wait_fails = None" "shell_pgid ww_wait_fails = 50"
    by (simp_all add: ww_wait_fails_def)
  have a: "last (trace (snd (wait_on_fg_pgid ww_killed 100 ?s))) = E_tcsetpgrp 0 50
      \<and> tty_fg (snd (wait_on_fg_pgid ww_killed 100 ?s)) = 50"
    using fg_wait_restores_terminal [OF h1 h2 h3 h4 h5 h6] r by auto
  have b: "last (trace (snd (wait_on_fg_pgid ww_wait_fails 100 ?s))) = E_tcsetpgrp 0 50
      \<and> tty_fg (snd (wait_on_fg_pgid ww_wait_fails 100 ?s)) = 50"
    using fg_wait_restores_terminal [OF g1 h2 h3 g4 g5 g6] q by auto
  have c: "fst (wait_on_fg_pgid ww_killed 100 ?s) = Return 0"
      "fst (wait_on_fg_pgid ww_wait_fails 100 ?s) = Return (- 1)"
    using h6 g6 by (metis fst_conv)+
  show ?thesis using a b c h1 g1 by simp
qed

lemma fg_out_fields [simp]: "fst (fg_out w r s) = Return r"
  "params_status (snd (fg_out w r s)) = params_status s"
  "jobs (snd (fg_out w r s)) = jobs s"
  by (simp_all add: fg_out_def split: option.splits)

lemma set_exit_status_fields [simp]:
  "params_status (set_exit_status st s) = exit_status_of st (params_status s)"
  "jobs (set_exit_status st s) = jobs s"
  by (cases st; simp)+

lemma jobs_set_then_get:
  assumes "jobs_get_status jd js = Some st0"
  shows "\<exists>js'. jobs_set_status jd st js = (0, js') \<and> jobs_get_status jd js' = Some st"
proof -
  have f: "find (\<lambda>j. job_jid j = jd) js \<noteq> None"
    using assms by (auto simp: jobs_get_status_def)
  have "jobs_get_status jd (map (\<lambda>j. if job_jid j = jd then j\<lparr>job_status := st\<rparr> else j) js) = Some st"
    using f unfolding jobs_get_status_def by (induction js) auto
  then show ?thesis using f by (simp add: jobs_set_status_def)
qed

lemma jobs_remove_pgid_gone: "\<forall>j\<in>set (snd (jobs_remove_pgid pg js)). job_pgid j \<noteq> pg"
  by (auto simp: jobs_remove_pgid_def find_None_iff)

lemma jobs_get_jid_status:
  assumes "jobs_get_jid pg js = jd" "0 \<le> jd"
  shows "\<exists>st. jobs_get_status jd js = Some st"
proof -
  obtain j where j: "find (\<lambda>j. job_pgid j = pg) js = Some j" "job_jid j = jd"
    using assms by (auto simp: jobs_get_jid_def split: option.splits)
  then have "j \<in> set js" by (auto simp: find_Some_iff)
  then have "find (\<lambda>j. job_jid j = jd) js \<noteq> None"
    using j(2) by (auto simp: find_None_iff)
  then show ?thesis by (auto simp: jobs_get_status_def)
qed

lemma fg_wait_loop_echild:
  assumes "\<forall>r\<in>set pre. reaped_running r"
    and "jobs_get_status jd (jobs s) = Some st0"
    and "fg_wait_loop w pg jd (pre @ W_err ECHILD # rest) s = (e, s')"
  shows "e = Return 0
       \<and> params_status s' = exit_status_of (last_recorded st0 pre) (params_status s)
       \<and> (\<forall>j\<in>set (jobs s'). job_pgid j \<noteq> pg)"
  using assms
proof (induction pre arbitrary: s st0)
  case Nil
  have "fg_wait_loop w pg jd (W_err ECHILD # rest) s =
      fg_out w 0 ((set_exit_status st0 (emit (E_waitpid (- pg) {}) s))
         \<lparr>jobs := snd (jobs_remove_pgid pg (jobs s))\<rparr>)"
    using Nil.prems(2) by (simp add: Let_def)
  then have e: "e = fst (fg_out w 0 ((set_exit_status st0 (emit (E_waitpid (- pg) {}) s))
         \<lparr>jobs := snd (jobs_remove_pgid pg (jobs s))\<rparr>))"
    and s': "s' = snd (fg_out w 0 ((set_exit_status st0 (emit (E_waitpid (- pg) {}) s))
         \<lparr>jobs := snd (jobs_remove_pgid pg (jobs s))\<rparr>))"
    using Nil.prems(3) by simp_all
  show ?case
    using jobs_remove_pgid_gone [of pg "jobs s"] by (simp add: e s')
next
  case (Cons a pre)
  show ?case
  proof (cases a)
    case (W_pid p st)
    then have p: "p > 0" "\<not> WIFSTOPPED st" using Cons.prems(1) by simp_all
    obtain js where js: "jobs_set_status jd st (jobs s) = (0, js)" "jobs_get_status jd js = Some st"
      using jobs_set_then_get [OF Cons.prems(2)] by blast
    have "fg_wait_loop w pg jd (pre @ W_err ECHILD # rest) ((emit (E_waitpid (- pg) {}) s)\<lparr>jobs := js\<rparr>) = (e, s')"
      using Cons.prems(3) W_pid p js by (simp add: Let_def)
    then show ?thesis
      using Cons.IH [of "(emit (E_waitpid (- pg) {}) s)\<lparr>jobs := js\<rparr>" st] Cons.prems(1) js(2) W_pid
      by simp
  next
    case (W_err x)
    then have x: "x = EINTR" using Cons.prems(1) by simp
    have "fg_wait_loop w pg jd (pre @ W_err ECHILD # rest) (emit (E_waitpid (- pg) {}) s) = (e, s')"
      using Cons.prems(3) W_err x by (simp add: Let_def)
    then show ?thesis
      using Cons.IH [of "emit (E_waitpid (- pg) {}) s" st0] Cons.prems(1,2) W_err
      by simp
  qed
qed

text \<open>
  C5: in a foreground wait that gets as far as its loop, when \<^verbatim>\<open>waitpid\<close> answers
  \<^verbatim>\<open>ECHILD\<close> (after any number of children reaped without stopping and of interrupted
  calls), the function returns 0, \<^verbatim>\<open>params.status\<close> is the translation of the status
  last recorded for the job (the exit code of a normal exit, 128 plus the signal number
  of a termination by signal), and the job table has no entry for the process group any
  more.
\<close>

theorem fg_wait_no_more_children:
  assumes "0 \<le> pg"
    and "jobs_get_jid pg (jobs s) = jd" and "0 \<le> jd"
    and "kill_res w = None"
    and "is_interactive w \<longrightarrow> tcset_res w = None"
    and "waits w = pre @ W_err ECHILD # rest"
    and "\<forall>r\<in>set pre. reaped_running r"
    and "wait_on_fg_pgid w pg s = (e, s')"
  shows "e = Return 0
       \<and> params_status s' =
           exit_status_of (last_recorded (the (jobs_get_status jd (jobs s))) pre) (params_status s)
       \<and> (\<forall>j\<in>set (jobs s'). job_pgid j \<noteq> pg)"
proof -
  obtain st0 where st0: "jobs_get_status jd (jobs s) = Some st0"
    using jobs_get_jid_status [OF assms(2,3)] by blast
  show ?thesis
  proof (cases "is_interactive w")
    case True
    let ?s = "(emit (E_tcsetpgrp 0 pg) (emit (E_kill_cont (- pg)) s))\<lparr>tty_fg := pg\<rparr>"
    have "fg_wait_loop w pg jd (pre @ W_err ECHILD # rest) ?s = (e, s')"
      using assms True by (simp add: wait_on_fg_pgid_def)
    then show ?thesis
      using fg_wait_loop_echild [OF assms(7), of jd ?s st0 w pg rest e s'] st0 by simp
  next
    case False
    let ?s = "emit (E_kill_cont (- pg)) s"
    have "fg_wait_loop w pg jd (pre @ W_err ECHILD # rest) ?s = (e, s')"
      using assms False by (simp add: wait_on_fg_pgid_def)
    then show ?thesis
      using fg_wait_loop_echild [OF assms(7), of jd ?s st0 w pg rest e s'] st0 by simp
  qed
qed

theorem fg_wait_no_more_children_witness:
  "fst (wait_on_fg_pgid ww_killed 100 (shell0\<lparr>jobs := job100\<rparr>)) = Return 0
   \<and> params_status (snd (wait_on_fg_pgid ww_killed 100 (shell0\<lparr>jobs := job100\<rparr>))) = 137
   \<and> jobs (snd (wait_on_fg_pgid ww_killed 100 (shell0\<lparr>jobs := job100\<rparr>))) = []"
proof -
  let ?s = "shell0\<lparr>jobs := job100\<rparr>"
  have h1: "(0::int) \<le> 100" by simp
  have h2: "jobs_get_jid 100 (jobs ?s) = 0" by (simp add: jobs_get_jid_def job100_def)
  have h3: "(0::int) \<le> 0" by simp
  have h4: "kill_res ww_killed = None" by (simp add: ww_killed_def)
  have h5: "is_interactive ww_killed \<longrightarrow> tcset_res ww_killed = None" by (simp add: ww_killed_def)
  have h6: "waits ww_killed = [W_err EINTR, W_pid 100 (Signaled 9)] @ W_err ECHILD # []"
    by (simp add: ww_killed_def)
  have h7: "\<forall>r\<in>set [W_err EINTR, W_pid 100 (Signaled 9)]. reaped_running r" by simp
  have h8: "wait_on_fg_pgid ww_killed 100 ?s
      = (fst (wait_on_fg_pgid ww_killed 100 ?s), snd (wait_on_fg_pgid ww_killed 100 ?s))"
    by simp
  show ?thesis
    using fg_wait_no_more_children [OF h1 h2 h3 h4 h5 h6 h7 h8]
    by (simp add: jobs_get_status_def job100_def)
       (simp add: wait_on_fg_pgid_def jobs_get_jid_def jobs_set_status_def jobs_get_status_def
          jobs_remove_pgid_def job100_def ww_killed_def fg_out_def Let_def)
qed


subsection \<open>Failure of the foreground wait\<close>

lemma close_if_open_neg [simp]: "close_if_open (- 1) s = s"
  by (simp add: close_if_open_def)

text \<open>
  C10: when a foreground command has been forked (an external command whose control
  operator is \<^verbatim>\<open>;\<close>, seen from the parent) and \<^verbatim>\<open>wait_on_fg_pgid\<close> returns a
  negative value, \<^verbatim>\<open>run_command_list\<close> does not run the remaining commands: it returns
  0 when \<^verbatim>\<open>params.status\<close> is not 127, and only when it is 127 prints a warning and
  returns \<open>-1\<close>.
\<close>

theorem fg_wait_failure_stops_list:
  assumes fg: "ctrl_op cmd0 = CHR '';''"
    and ext: "get_builtin w (expand_command_words w cmd0) = None"
    and sp: "spawn w i (pd\<lparr>pipe_fd := - 1\<rparr>) s = Inr (child_pid, pd2, s2)"
    and parent: "child_pid \<noteq> 0"
    and wt: "wait_on_fg_pgid (wait_world w i) (pgid pd2) (close_if_open (pipe_fd pd) s2) = (Return r, s3)"
    and fail: "r < 0"
  shows "run_commands_from w i (cmd0 # rest) pd s =
           (if params_status s3 \<noteq> 127 then (Return 0, s3)
            else (Return (- 1), (emit (E_stderr M_warn) s3)\<lparr>params_status := 127\<rparr>))"
proof -
  let ?cmd = "expand_command_words w cmd0"
  have ps: "pipe_setup w i ?cmd s = Inr (- 1, - 1, s)"
    using pipe_setup_none [of ?cmd w i s] fg by simp
  have pos: "child_pid > 0"
    using spawn_pid [OF sp] spawn_nonneg [OF sp] parent by simp
  have rc: "run_command w i cmd0 pd s = parent_branch w i ?cmd child_pid (pipe_fd pd) (- 1) pd2 s2"
    using fg ext ps sp parent by (simp add: run_command_def should_fork_def Let_def)
  have pb: "parent_branch w i ?cmd child_pid (pipe_fd pd) (- 1) pd2 s2 =
      (if params_status s3 \<noteq> 127 then (Some (Return 0), pd2, s3)
       else (Some (Return (- 1)), pd2, (emit (E_stderr M_warn) s3)\<lparr>params_status := 127\<rparr>))"
    using fg pos wt fail by (simp add: parent_branch_def)
  show ?thesis
    by (simp add: rc pb)
qed

theorem fg_wait_failure_stops_list_witness:
  "run_commands_from (world_ok\<lparr>wait_world := (\<lambda>i. ww_gone)\<rparr>) 0
       [simple ''ls'' (CHR '';''), simple ''ls'' (CHR '';'')] pd0 shell0
     = (Return 0,
        shell0\<lparr>jobs := [\<lparr>job_jid = 0, job_pgid = 100, job_status = Unclassified 0\<rparr>],
               procs := [100 \<mapsto> 100],
               trace := [E_fork, E_setpgid 100 0, E_setpgid 100 0, E_jobs_add 100,
                         E_kill_cont (- 100), E_stderr (M_job_gone 0)]\<rparr>)
   \<and> run_commands_from (world_ok\<lparr>wait_world := (\<lambda>i. ww_gone)\<rparr>) 0
       [simple ''ls'' (CHR '';''), simple ''ls'' (CHR '';'')] pd0 (shell0\<lparr>params_status := 127\<rparr>)
     = (Return (- 1),
        shell0\<lparr>params_status := 127,
               jobs := [\<lparr>job_jid = 0, job_pgid = 100, job_status = Unclassified 0\<rparr>],
               procs := [100 \<mapsto> 100],
               trace := [E_fork, E_setpgid 100 0, E_setpgid 100 0, E_jobs_add 100,
                         E_kill_cont (- 100), E_stderr (M_job_gone 0), E_stderr M_warn]\<rparr>)"
proof -
  let ?w = "world_ok\<lparr>wait_world := (\<lambda>i. ww_gone)\<rparr>"
  let ?u = "\<lambda>s. s\<lparr>jobs := [\<lparr>job_jid = 0, job_pgid = 100, job_status = Unclassified 0\<rparr>],
               procs := [100 \<mapsto> 100],
               trace := [E_fork, E_setpgid 100 0, E_setpgid 100 0, E_jobs_add 100]\<rparr>"
  let ?v = "\<lambda>s. s\<lparr>jobs := [\<lparr>job_jid = 0, job_pgid = 100, job_status = Unclassified 0\<rparr>],
               procs := [100 \<mapsto> 100],
               trace := [E_fork, E_setpgid 100 0, E_setpgid 100 0, E_jobs_add 100,
                         E_kill_cont (- 100), E_stderr (M_job_gone 0)]\<rparr>"
  let ?t = "shell0\<lparr>params_status := 127\<rparr>"
  have h1: "ctrl_op (simple ''ls'' (CHR '';'')) = CHR '';''" by (simp add: simple_def)
  have h2: "get_builtin ?w (expand_command_words ?w (simple ''ls'' (CHR '';''))) = None"
    by (simp add: expand_command_words_def world_ok_def simple_def)
  have h3: "spawn ?w 0 (pd0\<lparr>pipe_fd := - 1\<rparr>) shell0
      = Inr (100, \<lparr>pipe_fd = - 1, pgid = 100, jid = 0\<rparr>, ?u shell0)"
    by (simp add: spawn_def assign_group_def jobs_add_def emit_def example_defs)
  have k3: "spawn ?w 0 (pd0\<lparr>pipe_fd := - 1\<rparr>) ?t
      = Inr (100, \<lparr>pipe_fd = - 1, pgid = 100, jid = 0\<rparr>, ?u ?t)"
    by (simp add: spawn_def assign_group_def jobs_add_def emit_def example_defs)
  have h4: "(100::int) \<noteq> 0" by simp
  have h5: "wait_on_fg_pgid (wait_world ?w 0) (pgid \<lparr>pipe_fd = - 1, pgid = 100, jid = 0\<rparr>)
       (close_if_open (pipe_fd pd0) (?u shell0)) = (Return (- 1), ?v shell0)"
    by (simp add: wait_on_fg_pgid_def jobs_get_jid_def emit_def example_defs)
  have k5: "wait_on_fg_pgid (wait_world ?w 0) (pgid \<lparr>pipe_fd = - 1, pgid = 100, jid = 0\<rparr>)
       (close_if_open (pipe_fd pd0) (?u ?t)) = (Return (- 1), ?v ?t)"
    by (simp add: wait_on_fg_pgid_def jobs_get_jid_def emit_def example_defs)
  have h6: "(- 1::int) < 0" by simp
  have a: "run_commands_from ?w 0 [simple ''ls'' (CHR '';''), simple ''ls'' (CHR '';'')] pd0 shell0
     = (Return 0, ?v shell0)"
    using fg_wait_failure_stops_list [OF h1 h2 h3 h4 h5 h6, of "[simple ''ls'' (CHR '';'')]"]
    by (simp add: shell0_def)
  have b: "run_commands_from ?w 0 [simple ''ls'' (CHR '';''), simple ''ls'' (CHR '';'')] pd0 ?t
     = (Return (- 1), (emit (E_stderr M_warn) (?v ?t))\<lparr>params_status := 127\<rparr>)"
    using fg_wait_failure_stops_list [OF h1 h2 k3 h4 k5 h6, of "[simple ''ls'' (CHR '';'')]"]
    by (simp add: shell0_def)
  show ?thesis
    unfolding a b by (simp add: emit_def shell0_def)
qed


subsection \<open>Background reaping\<close>

text \<open>
  C3 claims that nothing in \<^verbatim>\<open>wait_on_bg_jobs\<close> blocks: that the inner wait call of
  each job is non-blocking and scoped to that job's process group.  The code does
  neither.  With one job of process group 1234 in the table, the call it makes is
  \<^verbatim>\<open>waitpid(0, &status, 0)\<close>: the first argument is 0 and not \<open>-1234\<close>, and the
  options do not hold \<^verbatim>\<open>WNOHANG\<close>; when no child has a status change to report, the
  call does not return.
\<close>

theorem wait_on_bg_jobs_blocking_unscoped:
  "wait_on_bg_jobs [W_err ECHILD] (shell0\<lparr>jobs := one_job\<rparr>)
     = (Return 0, shell0\<lparr>trace := [E_waitpid 0 {}, E_stderr (M_done 0)]\<rparr>)
   \<and> wait_on_bg_jobs [] (shell0\<lparr>jobs := one_job\<rparr>)
     = (Block, shell0\<lparr>jobs := one_job, trace := [E_waitpid 0 {}]\<rparr>)"
  by (simp add: wait_on_bg_jobs_def shell0_def one_job_def emit_def jobs_get_status_def
      jobs_remove_pgid_def)


subsection \<open>Redirections of an external command\<close>

lemma int_of_long_id: "- 2147483648 \<le> x \<Longrightarrow> x \<le> 2147483647 \<Longrightarrow> int_of_long x = x"
  unfolding int_of_long_def
  by (simp add: sint_sbintrunc' signed_take_bit_int_eq_self)

lemma digit_not_space: "isdigit c \<Longrightarrow> \<not> isspace c \<and> c \<noteq> CHR ''-'' \<and> c \<noteq> CHR ''+''"
  by (auto simp: isdigit_def isspace_def)

lemma decimal_nonneg: "0 \<le> acc \<Longrightarrow> list_all isdigit s \<Longrightarrow> 0 \<le> decimal acc s"
proof (induction s arbitrary: acc)
  case Nil
  then show ?case by simp
next
  case (Cons c s)
  have "0 \<le> digit_val c" using Cons.prems(2) by (simp add: isdigit_def digit_val_def)
  then show ?case using Cons by simp
qed

lemma strtol_digits:
  assumes "all_digits s"
  shows "strtol s = (min LONG_MAX (decimal 0 s), [])"
proof -
  obtain c cs where s: "s = c # cs" "isdigit c" "list_all isdigit cs"
    using assms by (cases s) (auto simp: all_digits_def)
  have d: "dropWhile isspace s = s" using s digit_not_space by simp
  have t: "takeWhile isdigit s = s" "dropWhile isdigit s = []"
    using s by (simp_all add: list_all_iff)
  have "0 \<le> decimal 0 s" using decimal_nonneg [of 0 s] s by simp
  then have m: "max LONG_MIN (min LONG_MAX (decimal 0 s)) = min LONG_MAX (decimal 0 s)"
    by (simp add: LONG_MIN_def LONG_MAX_def)
  have h: "hd s \<noteq> CHR ''-''" "hd s \<noteq> CHR ''+''" using s digit_not_space by auto
  show ?thesis
    unfolding strtol_def Let_def d using h t m s(1) by simp
qed

lemma strtol_minus_digits:
  assumes "all_digits ds"
  shows "strtol (CHR ''-'' # ds) = (max LONG_MIN (- decimal 0 ds), [])"
proof -
  obtain c cs where s: "ds = c # cs" "isdigit c" "list_all isdigit cs"
    using assms by (cases ds) (auto simp: all_digits_def)
  have d: "dropWhile isspace (CHR ''-'' # ds) = CHR ''-'' # ds" by (simp add: isspace_def)
  have t: "takeWhile isdigit ds = ds" "dropWhile isdigit ds = []"
    using s by (simp_all add: list_all_iff)
  have "0 \<le> decimal 0 ds" using decimal_nonneg [of 0 ds] s by simp
  then have m: "min LONG_MAX (- decimal 0 ds) = - decimal 0 ds"
    by (simp add: LONG_MAX_def)
  show ?thesis
    unfolding strtol_def Let_def d using t m s(1) by simp
qed

lemma strtol_stops_at_other:
  assumes "c \<in> set s" "\<not> isdigit c" "\<not> isspace c" "c \<noteq> CHR ''+''" "c \<noteq> CHR ''-''"
  shows "snd (strtol s) \<noteq> []"
proof -
  define t where "t = dropWhile isspace s"
  define u where "u = (if t \<noteq> [] \<and> (hd t = CHR ''-'' \<or> hd t = CHR ''+'') then tl t else t)"
  have eq: "strtol s = (if takeWhile isdigit u = [] then (0, s)
        else (max LONG_MIN (min LONG_MAX
                (if t \<noteq> [] \<and> hd t = CHR ''-'' then - decimal 0 (takeWhile isdigit u)
                 else decimal 0 (takeWhile isdigit u))), dropWhile isdigit u))"
    unfolding strtol_def u_def t_def by (simp only: Let_def)
  have "c \<notin> set (takeWhile isspace s)" using assms(3) by (auto dest: set_takeWhileD)
  then have ct: "c \<in> set t"
    unfolding t_def using assms(1) by (metis Un_iff set_append takeWhile_dropWhile_id)
  then have cu: "c \<in> set u"
    unfolding u_def using assms(4,5) by (cases t) auto
  have "c \<notin> set (takeWhile isdigit u)" using assms(2) by (auto dest: set_takeWhileD)
  then have "c \<in> set (dropWhile isdigit u)"
    using cu by (metis Un_iff set_append takeWhile_dropWhile_id)
  then have nz: "dropWhile isdigit u \<noteq> []" by (metis empty_iff empty_set)
  have se: "s \<noteq> []" using assms(1) by (metis empty_iff empty_set)
  show ?thesis
  proof (cases "takeWhile isdigit u = []")
    case True
    then show ?thesis using eq se by simp
  next
    case False
    then show ?thesis using eq nz by simp
  qed
qed

lemma io_file_open_cong:
  "filename r' = filename r \<Longrightarrow> io_number r' = io_number r \<Longrightarrow>
   get_io_flags (io_op r') = get_io_flags (io_op r) \<Longrightarrow>
     io_file_open w i r' t = io_file_open w i r t"
  by (simp add: io_file_open_def split: prod.splits)

lemma io_file_open_plain:
  assumes "io_op r = OP_GREATAND \<or> io_op r = OP_LESSAND"
  shows "io_redirect w i (r\<lparr>io_op := plain_op (io_op r)\<rparr>) t = io_file_open w i r t"
proof -
  have n: "io_op (r\<lparr>io_op := plain_op (io_op r)\<rparr>) \<noteq> OP_GREATAND"
          "io_op (r\<lparr>io_op := plain_op (io_op r)\<rparr>) \<noteq> OP_LESSAND"
    using assms by auto
  have f: "get_io_flags (io_op (r\<lparr>io_op := plain_op (io_op r)\<rparr>)) = get_io_flags (io_op r)"
    using assms by auto
  have "io_redirect w i (r\<lparr>io_op := plain_op (io_op r)\<rparr>) t
      = io_file_open w i (r\<lparr>io_op := plain_op (io_op r)\<rparr>) t"
    unfolding io_redirect_def using n by (simp only: if_False simp_thms)
  also have "\<dots> = io_file_open w i r t"
    by (rule io_file_open_cong) (use assms in auto)
  finally show ?thesis .
qed

lemma io_redirect_dash:
  assumes "io_op r = OP_GREATAND \<or> io_op r = OP_LESSAND" "filename r = ''-''"
  shows "io_redirect w i r t = (case sys_close (io_number r) t of (rc, t1) \<Rightarrow> (\<not> rc < 0, t1))"
  using assms by (simp add: io_redirect_def)

lemma io_redirect_number:
  assumes "io_op r = OP_GREATAND \<or> io_op r = OP_LESSAND" "filename r \<noteq> ''-''"
    and "filename r \<noteq> []" "strtol (filename r) = (v, [])" "v \<le> INT_MAX"
  shows "io_redirect w i r t =
          (case sys_dup2 (int_of_long v) (io_number r) t of (rc, t1) \<Rightarrow> (\<not> rc < 0, t1))"
  using assms by (simp add: io_redirect_def)

lemma io_redirect_fallback:
  assumes "io_op r = OP_GREATAND \<or> io_op r = OP_LESSAND" "filename r \<noteq> ''-''"
    and "\<not> (filename r \<noteq> [] \<and> snd (strtol (filename r)) = [] \<and> fst (strtol (filename r)) \<le> INT_MAX)"
  shows "io_redirect w i r t = io_redirect w i (r\<lparr>io_op := plain_op (io_op r)\<rparr>) t"
proof -
  obtain v e where st: "strtol (filename r) = (v, e)" by (cases "strtol (filename r)") auto
  have c: "\<not> (filename r \<noteq> [] \<and> e = [] \<and> v \<le> INT_MAX)" using assms(3) st by simp
  have "io_redirect w i r t = io_file_open w i r t"
    unfolding io_redirect_def using assms(1,2) by (simp add: st c)
  then show ?thesis by (simp add: io_file_open_plain [OF assms(1)])
qed

lemma sys_dup2_result:
  "sys_dup2 src dst t =
     (if fd_lookup t src = None \<or> dst < 0 \<or> int (length t) \<le> dst then (- 1, t)
      else (dst, if src = dst then t else t[nat dst := fd_lookup t src]))"
  by (auto simp: sys_dup2_def fd_install_def split: option.splits)

text \<open>
  C6, as the code has it, for a redirection \<^verbatim>\<open>n>&word\<close> or \<^verbatim>\<open>n<&word\<close> applied by
  \<^verbatim>\<open>do_io_redirects\<close>.  The test is the \<^verbatim>\<open>strtol\<close> idiom with the one bound
  \<^verbatim>\<open>src <= INT_MAX\<close>: the operand \<^verbatim>\<open>-\<close> closes descriptor \<open>n\<close>; an operand that
  \<^verbatim>\<open>strtol\<close> reads to its end with a value that fits an \<^verbatim>\<open>int\<close> is handed to
  \<^verbatim>\<open>dup2\<close> onto \<open>n\<close>; an operand that is empty, is not read to its end, or has a value
  above \<^verbatim>\<open>INT_MAX\<close> is opened as a file, as the plain operator would.  In terms of the
  operand's characters: for a string of digits with a value \<open>m\<close> of at most
  \<^verbatim>\<open>INT_MAX\<close> the redirection succeeds exactly when descriptor \<open>m\<close> is open and \<open>n\<close> is
  a descriptor number below the limit, and \<open>n\<close> then refers to what \<open>m\<close> refers to; an
  empty operand, an operand with a character that is neither a digit, a sign nor white
  space, and a string of digits above \<^verbatim>\<open>INT_MAX\<close> fall back to the file; and a minus
  sign followed by digits (a negative number that fits an \<^verbatim>\<open>int\<close>) does not fall
  back: it goes to \<^verbatim>\<open>dup2\<close>, which fails, and so does the redirection.  Operands with
  a value below \<^verbatim>\<open>INT_MIN\<close> are left out.
\<close>

theorem dup_redirect_operand:
  assumes op: "io_op r = OP_GREATAND \<or> io_op r = OP_LESSAND"
  shows
    "(filename r = ''-'' \<longrightarrow>
        io_redirect w i r t = (case sys_close (io_number r) t of (rc, t1) \<Rightarrow> (\<not> rc < 0, t1)))
   \<and> (filename r \<noteq> ''-'' \<and> filename r \<noteq> [] \<and> snd (strtol (filename r)) = []
        \<and> INT_MIN \<le> fst (strtol (filename r)) \<and> fst (strtol (filename r)) \<le> INT_MAX \<longrightarrow>
        io_redirect w i r t =
          (case sys_dup2 (fst (strtol (filename r))) (io_number r) t of
             (rc, t1) \<Rightarrow> (\<not> rc < 0, t1)))
   \<and> (filename r \<noteq> ''-'' \<and> \<not> (filename r \<noteq> [] \<and> snd (strtol (filename r)) = []
        \<and> fst (strtol (filename r)) \<le> INT_MAX) \<longrightarrow>
        io_redirect w i r t = io_redirect w i (r\<lparr>io_op := plain_op (io_op r)\<rparr>) t)
   \<and> (all_digits (filename r) \<and> decimal 0 (filename r) \<le> INT_MAX \<longrightarrow>
        io_redirect w i r t =
          (if fd_lookup t (decimal 0 (filename r)) = None
              \<or> io_number r < 0 \<or> int (length t) \<le> io_number r
           then (False, t)
           else (True, if decimal 0 (filename r) = io_number r then t
                       else t[nat (io_number r) := fd_lookup t (decimal 0 (filename r))])))
   \<and> (filename r \<noteq> ''-'' \<and>
        (filename r = []
         \<or> (\<exists>c\<in>set (filename r). \<not> isdigit c \<and> \<not> isspace c \<and> c \<noteq> CHR ''+'' \<and> c \<noteq> CHR ''-'')
         \<or> (all_digits (filename r) \<and> INT_MAX < decimal 0 (filename r))) \<longrightarrow>
        io_redirect w i r t = io_redirect w i (r\<lparr>io_op := plain_op (io_op r)\<rparr>) t)
   \<and> (\<forall>ds. filename r = CHR ''-'' # ds \<and> all_digits ds \<and> 0 < decimal 0 ds
          \<and> decimal 0 ds \<le> INT_MAX + 1 \<longrightarrow>
        io_redirect w i r t = (False, t))"
proof (intro conjI impI allI)
  assume "filename r = ''-''"
  then show "io_redirect w i r t = (case sys_close (io_number r) t of (rc, t1) \<Rightarrow> (\<not> rc < 0, t1))"
    by (rule io_redirect_dash [OF op])
next
  assume a: "filename r \<noteq> ''-'' \<and> filename r \<noteq> [] \<and> snd (strtol (filename r)) = []
        \<and> INT_MIN \<le> fst (strtol (filename r)) \<and> fst (strtol (filename r)) \<le> INT_MAX"
  then have st: "strtol (filename r) = (fst (strtol (filename r)), [])"
    by (metis prod.collapse)
  have id: "int_of_long (fst (strtol (filename r))) = fst (strtol (filename r))"
    using int_of_long_id [of "fst (strtol (filename r))"] a by (simp add: INT_MAX_def INT_MIN_def)
  have "io_redirect w i r t =
          (case sys_dup2 (int_of_long (fst (strtol (filename r)))) (io_number r) t of
             (rc, t1) \<Rightarrow> (\<not> rc < 0, t1))"
    using io_redirect_number [OF op _ _ st] a by blast
  then show "io_redirect w i r t =
          (case sys_dup2 (fst (strtol (filename r))) (io_number r) t of
             (rc, t1) \<Rightarrow> (\<not> rc < 0, t1))"
    by (simp only: id)
next
  assume "filename r \<noteq> ''-'' \<and> \<not> (filename r \<noteq> [] \<and> snd (strtol (filename r)) = []
        \<and> fst (strtol (filename r)) \<le> INT_MAX)"
  then show "io_redirect w i r t = io_redirect w i (r\<lparr>io_op := plain_op (io_op r)\<rparr>) t"
    using io_redirect_fallback [OF op] by blast
next
  assume a: "all_digits (filename r) \<and> decimal 0 (filename r) \<le> INT_MAX"
  have nn: "0 \<le> decimal 0 (filename r)"
    using decimal_nonneg [of 0 "filename r"] a by (simp add: all_digits_def)
  have "min LONG_MAX (decimal 0 (filename r)) = decimal 0 (filename r)"
    using a by (simp add: INT_MAX_def LONG_MAX_def)
  then have st: "strtol (filename r) = (decimal 0 (filename r), [])"
    using strtol_digits [of "filename r"] a by simp
  have nd: "filename r \<noteq> ''-''" "filename r \<noteq> []"
    using a by (auto simp: all_digits_def isdigit_def)
  have id: "int_of_long (decimal 0 (filename r)) = decimal 0 (filename r)"
    using int_of_long_id [of "decimal 0 (filename r)"] nn a by (simp add: INT_MAX_def)
  have "io_redirect w i r t =
          (case sys_dup2 (decimal 0 (filename r)) (io_number r) t of
             (rc, t1) \<Rightarrow> (\<not> rc < 0, t1))"
    using io_redirect_number [OF op nd st, of w i t] a id by simp
  then show "io_redirect w i r t =
          (if fd_lookup t (decimal 0 (filename r)) = None
              \<or> io_number r < 0 \<or> int (length t) \<le> io_number r
           then (False, t)
           else (True, if decimal 0 (filename r) = io_number r then t
                       else t[nat (io_number r) := fd_lookup t (decimal 0 (filename r))]))"
    by (simp add: sys_dup2_result)
next
  assume a: "filename r \<noteq> ''-'' \<and>
        (filename r = []
         \<or> (\<exists>c\<in>set (filename r). \<not> isdigit c \<and> \<not> isspace c \<and> c \<noteq> CHR ''+'' \<and> c \<noteq> CHR ''-'')
         \<or> (all_digits (filename r) \<and> INT_MAX < decimal 0 (filename r)))"
  have "\<not> (filename r \<noteq> [] \<and> snd (strtol (filename r)) = []
        \<and> fst (strtol (filename r)) \<le> INT_MAX)"
  proof -
    consider "filename r = []"
      | "\<exists>c\<in>set (filename r). \<not> isdigit c \<and> \<not> isspace c \<and> c \<noteq> CHR ''+'' \<and> c \<noteq> CHR ''-''"
      | "all_digits (filename r) \<and> INT_MAX < decimal 0 (filename r)"
      using a by blast
    then show ?thesis
    proof cases
      case 1
      then show ?thesis by simp
    next
      case 2
      then show ?thesis using strtol_stops_at_other by blast
    next
      case 3
      then have "fst (strtol (filename r)) = min LONG_MAX (decimal 0 (filename r))"
        using strtol_digits [of "filename r"] by simp
      then have "\<not> fst (strtol (filename r)) \<le> INT_MAX"
        using 3 by (simp add: INT_MAX_def LONG_MAX_def min_def)
      then show ?thesis by simp
    qed
  qed
  then show "io_redirect w i r t = io_redirect w i (r\<lparr>io_op := plain_op (io_op r)\<rparr>) t"
    using io_redirect_fallback [OF op] a by blast
next
  fix ds
  assume a: "filename r = CHR ''-'' # ds \<and> all_digits ds \<and> 0 < decimal 0 ds
          \<and> decimal 0 ds \<le> INT_MAX + 1"
  have "max LONG_MIN (- decimal 0 ds) = - decimal 0 ds"
    using a by (simp add: INT_MAX_def LONG_MIN_def)
  then have st: "strtol (filename r) = (- decimal 0 ds, [])"
    using strtol_minus_digits [of ds] a by simp
  have nd: "filename r \<noteq> ''-''" "filename r \<noteq> []"
    using a by (auto simp: all_digits_def)
  have id: "int_of_long (- decimal 0 ds) = - decimal 0 ds"
    using int_of_long_id [of "- decimal 0 ds"] a by (simp add: INT_MAX_def)
  have le: "- decimal 0 ds \<le> INT_MAX" using a by (simp add: INT_MAX_def)
  have "sys_dup2 (- decimal 0 ds) (io_number r) t = (- 1, t)"
    using a by (simp add: sys_dup2_def fd_lookup_def)
  then show "io_redirect w i r t = (False, t)"
    using io_redirect_number [OF op nd st le, of w i t] id by simp
qed

text \<open>
  C6 as stated fails for such an operand: \<^verbatim>\<open>1>&-1\<close> is not \<^verbatim>\<open>-\<close> and does not
  parse as a non-negative integer, yet it does not behave as \<^verbatim>\<open>1> -1\<close>, which creates
  the file \<^verbatim>\<open>-1\<close>: it fails and opens nothing.
\<close>

theorem dup_redirect_operand_counterexample:
  "io_redirect rw_ok 0 \<lparr>io_op = OP_GREATAND, io_number = 1, filename = ''-1''\<rparr> stdio
     = (False, stdio)
   \<and> io_redirect rw_ok 0 \<lparr>io_op = OP_GREAT, io_number = 1, filename = ''-1''\<rparr> stdio
     = (True, stdio[1 := Some (Named ''-1'' {O_WRONLY, O_CREAT, O_EXCL})])"
  by (simp add: io_redirect_def io_file_open_def move_fd_def sys_open_def sys_dup2_def
      sys_close_def fd_lookup_def fd_install_def rw_ok_def stdio_def
      strtol_def isspace_def isdigit_def digit_val_def INT_MAX_def LONG_MAX_def LONG_MIN_def
      int_of_long_def)

theorem dup_redirect_operand_witness:
  "io_redirect rw_ok 0 \<lparr>io_op = OP_GREATAND, io_number = 2, filename = ''1''\<rparr> stdio
     = (True, stdio[2 := Some (Inherited 1)])
   \<and> io_redirect rw_ok 0 \<lparr>io_op = OP_GREATAND, io_number = 8, filename = ''1''\<rparr> stdio
     = (False, stdio)
   \<and> io_redirect rw_ok 0 \<lparr>io_op = OP_LESSAND, io_number = 0, filename = ''-''\<rparr> stdio
     = (True, stdio[0 := None])
   \<and> io_redirect rw_ok 0 \<lparr>io_op = OP_GREATAND, io_number = 1, filename = ''badtoken''\<rparr> stdio
     = io_redirect rw_ok 0 \<lparr>io_op = OP_GREAT, io_number = 1, filename = ''badtoken''\<rparr> stdio
   \<and> io_redirect rw_ok 0 \<lparr>io_op = OP_GREATAND, io_number = 1, filename = ''-7''\<rparr> stdio
     = (False, stdio)
   \<and> io_redirect rw_ok 0 \<lparr>io_op = OP_LESSAND, io_number = 0, filename = ''+2''\<rparr> stdio
     = (True, stdio[0 := Some (Inherited 2)])"
proof -
  let ?a = "\<lparr>io_op = OP_GREATAND, io_number = 2, filename = ''1''\<rparr>"
  let ?a8 = "\<lparr>io_op = OP_GREATAND, io_number = 8, filename = ''1''\<rparr>"
  let ?b = "\<lparr>io_op = OP_LESSAND, io_number = 0, filename = ''-''\<rparr>"
  let ?c = "\<lparr>io_op = OP_GREATAND, io_number = 1, filename = ''badtoken''\<rparr>"
  let ?d = "\<lparr>io_op = OP_GREATAND, io_number = 1, filename = ''-7''\<rparr>"
  let ?e = "\<lparr>io_op = OP_LESSAND, io_number = 0, filename = ''+2''\<rparr>"
  have opa: "io_op ?a = OP_GREATAND \<or> io_op ?a = OP_LESSAND" by simp
  have opa8: "io_op ?a8 = OP_GREATAND \<or> io_op ?a8 = OP_LESSAND" by simp
  have opb: "io_op ?b = OP_GREATAND \<or> io_op ?b = OP_LESSAND" by simp
  have opc: "io_op ?c = OP_GREATAND \<or> io_op ?c = OP_LESSAND" by simp
  have opd: "io_op ?d = OP_GREATAND \<or> io_op ?d = OP_LESSAND" by simp
  have ope: "io_op ?e = OP_GREATAND \<or> io_op ?e = OP_LESSAND" by simp
  have da: "all_digits (filename ?a) \<and> decimal 0 (filename ?a) \<le> INT_MAX"
    by (simp add: all_digits_def isdigit_def digit_val_def INT_MAX_def)
  have da8: "all_digits (filename ?a8) \<and> decimal 0 (filename ?a8) \<le> INT_MAX"
    by (simp add: all_digits_def isdigit_def digit_val_def INT_MAX_def)
  have va: "decimal 0 ''1'' = 1" by (simp add: digit_val_def)
  have db: "filename ?b = ''-''" by simp
  have dc: "filename ?c \<noteq> ''-'' \<and>
        (filename ?c = []
         \<or> (\<exists>c\<in>set (filename ?c). \<not> isdigit c \<and> \<not> isspace c \<and> c \<noteq> CHR ''+'' \<and> c \<noteq> CHR ''-'')
         \<or> (all_digits (filename ?c) \<and> INT_MAX < decimal 0 (filename ?c)))"
    by (simp add: isdigit_def isspace_def)
  have dd: "filename ?d = CHR ''-'' # ''7'' \<and> all_digits ''7'' \<and> 0 < decimal 0 ''7''
          \<and> decimal 0 ''7'' \<le> INT_MAX + 1"
    by (simp add: all_digits_def isdigit_def digit_val_def INT_MAX_def)
  have se: "strtol ''+2'' = (2, [])"
    by (simp add: strtol_def isspace_def isdigit_def digit_val_def LONG_MAX_def LONG_MIN_def)
  have de: "filename ?e \<noteq> ''-'' \<and> filename ?e \<noteq> [] \<and> snd (strtol (filename ?e)) = []
        \<and> INT_MIN \<le> fst (strtol (filename ?e)) \<and> fst (strtol (filename ?e)) \<le> INT_MAX"
    by (simp add: se INT_MIN_def INT_MAX_def)
  have a0: "io_redirect rw_ok 0 ?a stdio =
          (if fd_lookup stdio (decimal 0 (filename ?a)) = None
              \<or> io_number ?a < 0 \<or> int (length stdio) \<le> io_number ?a
           then (False, stdio)
           else (True, if decimal 0 (filename ?a) = io_number ?a then stdio
                       else stdio[nat (io_number ?a) := fd_lookup stdio (decimal 0 (filename ?a))]))"
    using dup_redirect_operand [OF opa, of rw_ok 0 stdio] da by blast
  have a: "io_redirect rw_ok 0 ?a stdio = (True, stdio[2 := Some (Inherited 1)])"
    unfolding a0 by (simp add: digit_val_def fd_lookup_def stdio_def)
  have a80: "io_redirect rw_ok 0 ?a8 stdio =
          (if fd_lookup stdio (decimal 0 (filename ?a8)) = None
              \<or> io_number ?a8 < 0 \<or> int (length stdio) \<le> io_number ?a8
           then (False, stdio)
           else (True, if decimal 0 (filename ?a8) = io_number ?a8 then stdio
                       else stdio[nat (io_number ?a8) := fd_lookup stdio (decimal 0 (filename ?a8))]))"
    using dup_redirect_operand [OF opa8, of rw_ok 0 stdio] da8 by blast
  have a8: "io_redirect rw_ok 0 ?a8 stdio = (False, stdio)"
    unfolding a80 by (simp add: digit_val_def fd_lookup_def stdio_def)
  have b: "io_redirect rw_ok 0 ?b stdio =
      (case sys_close (io_number ?b) stdio of (rc, t1) \<Rightarrow> (\<not> rc < 0, t1))"
    using dup_redirect_operand [OF opb, of rw_ok 0 stdio] db by blast
  have c: "io_redirect rw_ok 0 ?c stdio = io_redirect rw_ok 0 (?c\<lparr>io_op := plain_op (io_op ?c)\<rparr>) stdio"
    using dup_redirect_operand [OF opc, of rw_ok 0 stdio] dc by blast
  have d: "io_redirect rw_ok 0 ?d stdio = (False, stdio)"
    using dup_redirect_operand [OF opd, of rw_ok 0 stdio] dd by blast
  have e: "io_redirect rw_ok 0 ?e stdio =
      (case sys_dup2 (fst (strtol (filename ?e))) (io_number ?e) stdio of
         (rc, t1) \<Rightarrow> (\<not> rc < 0, t1))"
    using dup_redirect_operand [OF ope, of rw_ok 0 stdio] de by blast
  have b': "io_redirect rw_ok 0 ?b stdio = (True, stdio[0 := None])"
    unfolding b by (simp add: sys_close_def fd_lookup_def stdio_def)
  have c': "io_redirect rw_ok 0 ?c stdio
     = io_redirect rw_ok 0 \<lparr>io_op = OP_GREAT, io_number = 1, filename = ''badtoken''\<rparr> stdio"
    unfolding c by simp
  have e': "io_redirect rw_ok 0 ?e stdio = (True, stdio[0 := Some (Inherited 2)])"
    unfolding e by (simp add: se sys_dup2_def fd_lookup_def fd_install_def stdio_def)
  show ?thesis using a a8 b' c' d e' by blast
qed


subsection \<open>Redirections of a builtin\<close>

text \<open>
  C7 claims that on the builtin path, as on the external one, a failed redirection
  aborts the sequence and is surfaced as a hard failure.  For
  \<^verbatim>\<open>cd < missing > out ;\<close> where the first \<^verbatim>\<open>open\<close> fails, the code records
  status \<open>-1\<close> and goes on: the second redirection is applied (the file is opened as
  descriptor 3 and recorded for pseudo-descriptor 1), and \<^verbatim>\<open>run_command_list\<close>,
  which does not look at the status, calls the builtin with that table and returns 0.
\<close>

theorem builtin_redirect_failure_not_surfaced:
  "do_builtin_io_redirects rw_first_open_fails cd_two_redirs (stdio, [])
     = (- 1, stdio[3 := Some (Named ''out'' {O_WRONLY, O_CREAT, O_EXCL})],
        [\<lparr>pseudofd = 1, realfd = 3\<rparr>])
   \<and> run_command_list (world_ok\<lparr>redir_world := (\<lambda>i. rw_first_open_fails)\<rparr>)
        [cd_two_redirs] shell0
     = (Return 0, shell0\<lparr>fds := stdio,
          trace := [E_builtin cd_two_redirs [\<lparr>pseudofd = 1, realfd = 3\<rparr>]]\<rparr>)"
proof -
  have a: "do_builtin_io_redirects rw_first_open_fails cd_two_redirs (stdio, [])
     = (- 1, stdio[3 := Some (Named ''out'' {O_WRONLY, O_CREAT, O_EXCL})],
        [\<lparr>pseudofd = 1, realfd = 3\<rparr>])"
    by (simp add: do_builtin_io_redirects_def builtin_redirect_def builtin_file_open_def
        stdio_def sys_open_def fd_install_def rw_first_open_fails_def cd_two_redirs_def)
  have b: "run_command_list (world_ok\<lparr>redir_world := (\<lambda>i. rw_first_open_fails)\<rparr>)
        [cd_two_redirs] shell0
     = (Return 0, shell0\<lparr>fds := stdio,
          trace := [E_builtin cd_two_redirs [\<lparr>pseudofd = 1, realfd = 3\<rparr>]]\<rparr>)"
    unfolding run_command_list_def
    apply (simp add: run_command_def)
    apply (simp add: expand_command_words_def world_ok_def cd_two_redirs_def pipe_setup_def
        should_fork_def)
    apply (simp add: builtin_branch_def seed_redirs_def a [unfolded cd_two_redirs_def]
        shell0_def do_variable_assignment_def emit_def cd_builtin_def Let_def)
    apply (simp add: stdio_def sys_close_def fd_lookup_def)
    done
  show ?thesis using a b by simp
qed

text \<open>
  C8 claims that closing a pseudo-descriptor keeps its record and sets the record's
  real descriptor to "closed", so that later operations on that pseudo-descriptor find
  it closed.  That is what the code does when no record exists yet.  When one exists,
  it sets the record's pseudo-descriptor to \<open>-1\<close> and leaves the real descriptor as it
  was.  For \<^verbatim>\<open>cd 1>&- 2>&1 |\<close> with pseudo-descriptor 1 mapped to the pipe's write end
  4: after \<^verbatim>\<open>1>&-\<close> no record is left for pseudo-descriptor 1 and the record's real
  descriptor is still 4, and \<^verbatim>\<open>2>&1\<close> then duplicates the shell's real descriptor 1
  (into the slot 4 just freed) for pseudo-descriptor 2.
\<close>

theorem builtin_close_loses_record:
  "do_builtin_io_redirects rw_ok cd_close_then_dup
       (stdio[3 := Some (PipeRead 0), 4 := Some (PipeWrite 0)], [\<lparr>pseudofd = 1, realfd = 4\<rparr>])
     = (0, stdio[3 := Some (PipeRead 0), 4 := Some (Inherited 1)],
        [\<lparr>pseudofd = 2, realfd = 4\<rparr>, \<lparr>pseudofd = - 1, realfd = 4\<rparr>])"
  by (simp add: do_builtin_io_redirects_def builtin_redirect_def cd_close_then_dup_def
      stdio_def sys_close_def sys_dup_def fd_lookup_def fd_install_def rw_ok_def
      strtol_def isspace_def isdigit_def digit_val_def INT_MAX_def LONG_MAX_def LONG_MIN_def
      int_of_long_def)


subsection \<open>Undoing the virtual redirections\<close>

lemma fd_lookup_int: "fd_lookup t (int m) = (if m < length t then t ! m else None)"
  by (simp add: fd_lookup_def)

lemma fd_lookup_neg: "j < 0 \<Longrightarrow> fd_lookup t j = None"
  by (simp add: fd_lookup_def)

lemma fd_lookup_install:
  assumes "k < length t"
  shows "fd_lookup (fd_install k f t) j = (if j = int k then Some f else fd_lookup t j)"
proof (cases "j < 0")
  case True
  then show ?thesis by (simp add: fd_lookup_neg)
next
  case False
  then obtain m where m: "j = int m" using nonneg_int_cases by (metis not_le_imp_less not_less)
  show ?thesis
    unfolding m using assms by (simp add: fd_lookup_int fd_install_def nth_list_update)
qed

lemma fd_lookup_install_int:
  assumes "0 \<le> d" "d < int (length t)"
  shows "fd_lookup (fd_install (nat d) f t) j = (if j = d then Some f else fd_lookup t j)"
proof -
  have "nat d < length t" using assms by simp
  then show ?thesis using fd_lookup_install [of "nat d" t f j] assms(1) by simp
qed

lemma fd_lookup_close:
  "fd_lookup (snd (sys_close fd t)) j = (if j = fd then None else fd_lookup t j)"
proof (cases "fd_lookup t fd = None")
  case True
  then show ?thesis by (auto simp: sys_close_def)
next
  case False
  then have fd: "0 \<le> fd" "nat fd < length t"
    by (auto simp: fd_lookup_def split: if_splits)
  have cl: "snd (sys_close fd t) = t[nat fd := None]" using False by (auto simp: sys_close_def)
  show ?thesis
  proof (cases "j < 0")
    case True
    then show ?thesis using fd by (auto simp: fd_lookup_neg)
  next
    case nn: False
    then show ?thesis
      unfolding cl using fd by (auto simp: fd_lookup_def nth_list_update)
  qed
qed

lemma lowest_free_nth: "lowest_free t < length t \<Longrightarrow> t ! lowest_free t = None"
  by (induction t rule: lowest_free.induct) simp_all

lemma lowest_free_free: "fd_lookup t (int (lowest_free t)) = None"
  using lowest_free_nth [of t] by (simp add: fd_lookup_int)

lemma std_same_refl [simp]: "std_same t t"
  by (simp add: std_same_def)

lemma std_same_trans: "std_same t t1 \<Longrightarrow> std_same t1 t2 \<Longrightarrow> std_same t t2"
  by (simp add: std_same_def)

lemma std_open_same: "std_open t \<Longrightarrow> std_same t t' \<Longrightarrow> std_open t'"
  by (simp add: std_open_def std_same_def)

lemma new_fd_not_std: "std_open t \<Longrightarrow> not_std (int (lowest_free t))"
  using lowest_free_free [of t]
  by (cases "lowest_free t = 0 \<or> lowest_free t = 1 \<or> lowest_free t = 2")
     (auto simp: std_open_def not_std_def)

lemma sys_close_std: "not_std fd \<Longrightarrow> std_same t (snd (sys_close fd t))"
  by (auto simp: std_same_def fd_lookup_close not_std_def)

lemma sys_dup2_std: "not_std dst \<Longrightarrow> std_same t (snd (sys_dup2 src dst t))"
proof (cases "fd_lookup t src = None \<or> dst < 0 \<or> int (length t) \<le> dst \<or> src = dst")
  case True
  then show ?thesis by (auto simp: sys_dup2_def split: option.splits)
next
  case False
  then obtain f where f: "fd_lookup t src = Some f" by auto
  have s: "snd (sys_dup2 src dst t) = fd_install (nat dst) f t"
    using False f by (simp add: sys_dup2_def)
  assume "not_std dst"
  then show ?thesis
    unfolding s using False by (simp add: std_same_def fd_lookup_install_int not_std_def)
qed

lemma sys_dup_std:
  "std_open t \<Longrightarrow> std_same t (snd (sys_dup src t)) \<and> not_std (fst (sys_dup src t))"
  using new_fd_not_std [of t]
  by (auto simp: std_same_def sys_dup_def fd_lookup_install not_std_def split: option.splits)

lemma sys_open_std:
  "std_open t \<Longrightarrow> std_same t (snd (sys_open ok p fl t)) \<and> not_std (fst (sys_open ok p fl t))"
  using new_fd_not_std [of t]
  by (auto simp: std_same_def sys_open_def fd_lookup_install not_std_def)

lemma move_fd_std:
  assumes "not_std src" "not_std dst"
  shows "std_same t (snd (move_fd src dst t))"
proof -
  obtain rc t1 where d: "sys_dup2 src dst t = (rc, t1)" by (cases "sys_dup2 src dst t") auto
  obtain rc2 t2 where c: "sys_close src t1 = (rc2, t2)" by (cases "sys_close src t1") auto
  have s1: "std_same t t1" using sys_dup2_std [OF assms(2), of t src] d by simp
  have s2: "std_same t1 t2" using sys_close_std [OF assms(1), of t1] c by simp
  show ?thesis
    using s1 std_same_trans [OF s1 s2] by (simp add: move_fd_def d c)
qed

lemma find_rec_less: "find_rec n l = Some k \<Longrightarrow> k < length l"
  by (induction l arbitrary: k) (auto split: if_splits)

lemma realfds_nth: "realfds_not_std l \<Longrightarrow> k < length l \<Longrightarrow> not_std (realfd (l ! k))"
  by (simp add: realfds_not_std_def list_all_length)

lemma realfds_cons:
  "realfds_not_std (\<lparr>pseudofd = n, realfd = fd\<rparr> # l) = (not_std fd \<and> realfds_not_std l)"
  by (simp add: realfds_not_std_def)

lemma realfds_retag:
  assumes a: "realfds_not_std l"
  shows "realfds_not_std (l[k := (l ! k)\<lparr>pseudofd := n\<rparr>])"
proof (cases "k < length l")
  case True
  have "not_std (realfd (l[k := (l ! k)\<lparr>pseudofd := n\<rparr>] ! j))" if "j < length l" for j
    using a that True by (cases "j = k") (simp_all add: realfds_not_std_def list_all_length)
  then show ?thesis by (simp add: realfds_not_std_def list_all_length)
next
  case False
  then have "l[k := (l ! k)\<lparr>pseudofd := n\<rparr>] = l"
    using list_update_beyond [of l k] by simp
  then show ?thesis using a by (simp only:)
qed

lemma builtin_file_open_std:
  assumes o: "std_open t" and l: "realfds_not_std l"
    and b: "builtin_file_open w i r (t, l) = (ok, t', l')"
  shows "std_same t t' \<and> realfds_not_std l'"
proof -
  obtain fd t1 where op: "sys_open (open_ok w i) (filename r) (get_io_flags (io_op r)) t = (fd, t1)"
    by (cases "sys_open (open_ok w i) (filename r) (get_io_flags (io_op r)) t") auto
  have s1: "std_same t t1" and nfd: "not_std fd"
    using sys_open_std [OF o, of "open_ok w i" "filename r" "get_io_flags (io_op r)"] op by simp_all
  show ?thesis
  proof (cases "fd < 0")
    case True
    then show ?thesis using b op s1 l by (simp add: builtin_file_open_def)
  next
    case nn: False
    show ?thesis
    proof (cases "find_rec (io_number r) l")
      case None
      then show ?thesis
        using b op nn s1 l nfd
        by (auto simp: builtin_file_open_def realfds_cons split: if_splits)
    next
      case (Some k)
      obtain rc t2 where mv: "move_fd fd (realfd (l ! k)) t1 = (rc, t2)"
        by (cases "move_fd fd (realfd (l ! k)) t1") auto
      have "not_std (realfd (l ! k))" using realfds_nth [OF l find_rec_less [OF Some]] .
      then have "std_same t1 t2" using move_fd_std [OF nfd, of "realfd (l ! k)" t1] mv by simp
      then have "std_same t t2" using std_same_trans [OF s1] by simp
      then show ?thesis
        using b op nn Some mv l by (simp add: builtin_file_open_def)
    qed
  qed
qed

lemma builtin_redirect_std:
  assumes o: "std_open t" and l: "realfds_not_std l"
    and b: "builtin_redirect w i r (t, l) = (ok, t', l')"
  shows "std_same t t' \<and> realfds_not_std l'"
proof (cases "io_op r = OP_GREATAND \<or> io_op r = OP_LESSAND")
  case False
  then have "builtin_file_open w i r (t, l) = (ok, t', l')"
    using b by (simp add: builtin_redirect_def)
  then show ?thesis by (rule builtin_file_open_std [OF o l])
next
  case dup: True
  show ?thesis
  proof (cases "filename r = ''-''")
    case True
    show ?thesis
    proof (cases "find_rec (io_number r) l")
      case None
      then show ?thesis
        using b dup True l by (auto simp: builtin_redirect_def realfds_cons not_std_def split: if_splits)
    next
      case (Some k)
      have "not_std (realfd (l ! k))" using realfds_nth [OF l find_rec_less [OF Some]] .
      then have "std_same t (snd (sys_close (realfd (l ! k)) t))" by (rule sys_close_std)
      then show ?thesis
        using b dup True Some realfds_retag [OF l, of k "- 1"] by (auto simp: builtin_redirect_def)
    qed
  next
    case nd: False
    obtain src0 endp where st: "strtol (filename r) = (src0, endp)"
      by (cases "strtol (filename r)") auto
    show ?thesis
    proof (cases "filename r \<noteq> [] \<and> endp = [] \<and> src0 \<le> INT_MAX")
      case False
      then have "builtin_file_open w i r (t, l) = (ok, t', l')"
        using b dup nd st by (auto simp: builtin_redirect_def)
      then show ?thesis by (rule builtin_file_open_std [OF o l])
    next
      case num: True
      show ?thesis
      proof (cases "resolve_src src0 l")
        case None
        then show ?thesis using b dup nd st num l by (auto simp: builtin_redirect_def)
      next
        case (Some src)
        show ?thesis
        proof (cases "find_rec (io_number r) l")
          case fn: None
          obtain fd t1 where du: "sys_dup (int_of_long src) t = (fd, t1)"
            by (cases "sys_dup (int_of_long src) t") auto
          have "std_same t t1" "not_std fd"
            using sys_dup_std [OF o, of "int_of_long src"] du by simp_all
          then show ?thesis
            using b dup nd st num Some fn du l
            by (auto simp: builtin_redirect_def realfds_cons split: if_splits)
        next
          case (Some k)
          note fk = Some
          obtain rc t1 where du: "sys_dup2 (int_of_long src) (realfd (l ! k)) t = (rc, t1)"
            by (cases "sys_dup2 (int_of_long src) (realfd (l ! k)) t") auto
          have "not_std (realfd (l ! k))" using realfds_nth [OF l find_rec_less [OF fk]] .
          then have "std_same t t1"
            using sys_dup2_std [of "realfd (l ! k)" t "int_of_long src"] du by simp
          then show ?thesis
            using b dup nd st num \<open>resolve_src src0 l = Some src\<close> fk du l
            by (auto simp: builtin_redirect_def)
        qed
      qed
    qed
  qed
qed

lemma builtin_redirects_from_std:
  assumes "std_open t" "realfds_not_std l"
    and "builtin_redirects_from w i rs st (t, l) = (st', t', l')"
  shows "std_same t t' \<and> realfds_not_std l'"
  using assms
proof (induction rs arbitrary: i st t l)
  case Nil
  then show ?case by simp
next
  case (Cons r rs)
  obtain ok t1 l1 where b: "builtin_redirect w i r (t, l) = (ok, t1, l1)"
    by (cases "builtin_redirect w i r (t, l)") auto
  have s1: "std_same t t1" and n1: "realfds_not_std l1"
    using builtin_redirect_std [OF Cons.prems(1,2) b] by simp_all
  have o1: "std_open t1" using std_open_same [OF Cons.prems(1) s1] .
  have "\<exists>st1. builtin_redirects_from w (Suc i) rs st1 (t1, l1) = (st', t', l')"
    using Cons.prems(3) b by (cases ok) auto
  then obtain st1 where "builtin_redirects_from w (Suc i) rs st1 (t1, l1) = (st', t', l')" by blast
  then have "std_same t1 t' \<and> realfds_not_std l'"
    using Cons.IH [OF o1 n1] by blast
  then show ?case using std_same_trans [OF s1] by blast
qed

lemma close_redirs_std: "realfds_not_std l \<Longrightarrow> std_same t (close_redirs l t)"
proof (induction l arbitrary: t)
  case Nil
  then show ?case by simp
next
  case (Cons r l)
  have "not_std (realfd r)" "realfds_not_std l"
    using Cons.prems by (simp_all add: realfds_not_std_def)
  then have "std_same t (snd (sys_close (realfd r) t))"
      "std_same (snd (sys_close (realfd r) t)) (close_redirs l (snd (sys_close (realfd r) t)))"
    using sys_close_std Cons.IH by blast+
  then show ?case using std_same_trans by simp
qed

lemma close_redirs_lookup:
  "fd_lookup (close_redirs l t) j = (if j \<in> realfd ` set l then None else fd_lookup t j)"
  by (induction l arbitrary: t) (auto simp: fd_lookup_close)

lemma assign_from_fds [simp]: "fds (snd (assign_from w as ex s)) = fds s"
  by (cases ex; induction as arbitrary: s; simp)

lemma seed_redirs_std:
  assumes "not_std up" "not_std down" "seed_redirs w i up down = Some l0"
  shows "realfds_not_std l0"
  using assms by (auto simp: seed_redirs_def realfds_not_std_def split: if_splits)

text \<open>
  C9, as the code has it: in a process whose descriptors 0, 1 and 2 are open, and with
  pipe ends that are none of these three, take any run of the builtin branch (forked or
  in the shell) in which the builtin is called, with the virtual table \<open>l1\<close> that
  \<^verbatim>\<open>do_builtin_io_redirects\<close> has built from the records of the pipe ends.  Whatever
  the builtin returns, and whether the redirections succeeded or not, the call of the
  builtin is followed by the clean-up loop, after which the real descriptor of every
  record of \<open>l1\<close> is closed, and descriptors 0, 1 and 2 are what they were before the
  branch.
\<close>

theorem builtin_redirections_undone:
  assumes o: "std_open (fds s)"
    and up: "not_std up" and down: "not_std down"
    and seed: "seed_redirs w i up down = Some l0"
    and redir: "do_builtin_io_redirects (redir_world w i) cmd (fds s, l0) = (st, t1, l1)"
    and run: "builtin_branch w i cmd f up down s = (e, s')"
  shows "last (trace s') = E_builtin cmd l1
       \<and> (\<forall>r\<in>set l1. fd_lookup (fds s') (realfd r) = None)
       \<and> fd_lookup (fds s') 0 = fd_lookup (fds s) 0
       \<and> fd_lookup (fds s') 1 = fd_lookup (fds s) 1
       \<and> fd_lookup (fds s') 2 = fd_lookup (fds s) 2"
proof -
  have n0: "realfds_not_std l0" using seed_redirs_std [OF up down seed] .
  have r: "std_same (fds s) t1" "realfds_not_std l1"
    using builtin_redirects_from_std [OF o n0, of "redir_world w i" 0 "io_redirs cmd" 0 st t1 l1] redir
    by (simp_all add: do_builtin_io_redirects_def)
  obtain v s2 where a: "do_variable_assignment w cmd False (s\<lparr>fds := t1\<rparr>) = (v, s2)"
    by (cases "do_variable_assignment w cmd False (s\<lparr>fds := t1\<rparr>)") auto
  have f2: "fds s2 = t1"
    using a assign_from_fds [of w "assignments cmd" False "s\<lparr>fds := t1\<rparr>"]
    by (simp add: do_variable_assignment_def)
  have s': "fds s' = close_redirs l1 t1" "trace s' = trace s2 @ [E_builtin cmd l1]"
    using run seed redir a f2 by (auto simp: builtin_branch_def Let_def split: if_splits)
  have c: "std_same t1 (close_redirs l1 t1)" using close_redirs_std [OF r(2)] .
  have same: "std_same (fds s) (fds s')"
    using std_same_trans [OF r(1) c] s'(1) by simp
  have closed: "\<forall>r\<in>set l1. fd_lookup (fds s') (realfd r) = None"
    by (simp add: s'(1) close_redirs_lookup)
  show ?thesis
    using same closed s'(2) by (simp add: std_same_def)
qed

text \<open>
  C9 as stated, for every builtin invocation, fails where a pipe end is one of the
  descriptors 0, 1 and 2.  In a shell started with descriptor 0 closed, the pipe of
  \<^verbatim>\<open>ls | cd ;\<close> gets descriptor 0 as its read end; the shell holds it when it comes to
  \<^verbatim>\<open>cd ;\<close>, records it for the builtin's pseudo-descriptor 0, and the clean-up loop
  closes it: descriptor 0 is open before the builtin is invoked and closed after.
\<close>

theorem builtin_redirections_undone_counterexample:
  "run_command world_ok 0 (simple ''ls'' (CHR ''|'')) pd0 shell_no_stdin
     = (None, \<lparr>pipe_fd = 0, pgid = 100, jid = 0\<rparr>, shell_stdin_pipe)
   \<and> fd_lookup (fds shell_stdin_pipe) 0 = Some (PipeRead 0)
   \<and> run_command world_ok 1 (simple ''cd'' (CHR '';'')) \<lparr>pipe_fd = 0, pgid = 100, jid = 0\<rparr>
        shell_stdin_pipe
     = (None, \<lparr>pipe_fd = - 1, pgid = 100, jid = 0\<rparr>,
        shell_stdin_pipe\<lparr>fds := stdio[0 := None],
          trace := trace shell_stdin_pipe
            @ [E_builtin (simple ''cd'' (CHR '';'')) [\<lparr>pseudofd = 0, realfd = 0\<rparr>]]\<rparr>)
   \<and> fd_lookup (stdio[0 := None]) 0 = None"
  by (simp add: runner_defs example_defs shell_no_stdin_def shell_stdin_pipe_def)

theorem builtin_redirections_undone_witness:
  "std_open (fds shell_piped)
   \<and> last (trace (snd (builtin_branch world_ok 1 cd_out cd_builtin 3 (- 1) shell_piped)))
       = E_builtin cd_out [\<lparr>pseudofd = 1, realfd = 4\<rparr>, \<lparr>pseudofd = 0, realfd = 3\<rparr>]
   \<and> fd_lookup (fds (snd (builtin_branch world_ok 1 cd_out cd_builtin 3 (- 1) shell_piped))) 3 = None
   \<and> fd_lookup (fds (snd (builtin_branch world_ok 1 cd_out cd_builtin 3 (- 1) shell_piped))) 4 = None
   \<and> fd_lookup (fds (snd (builtin_branch world_ok 1 cd_out cd_builtin 3 (- 1) shell_piped))) 0
       = Some (Inherited 0)
   \<and> fd_lookup (fds (snd (builtin_branch world_ok 1 cd_out cd_builtin 3 (- 1) shell_piped))) 1
       = Some (Inherited 1)
   \<and> fd_lookup (fds (snd (builtin_branch world_ok 1 cd_out cd_builtin 3 (- 1) shell_piped))) 2
       = Some (Inherited 2)"
proof -
  let ?r = "builtin_branch world_ok 1 cd_out cd_builtin 3 (- 1) shell_piped"
  let ?l1 = "[\<lparr>pseudofd = 1, realfd = 4\<rparr>, \<lparr>pseudofd = 0, realfd = 3\<rparr>]"
  have h1: "std_open (fds shell_piped)"
    by (simp add: std_open_def fd_lookup_def shell_piped_def stdio_def)
  have h2: "not_std 3" by (simp add: not_std_def)
  have h3: "not_std (- 1)" by (simp add: not_std_def)
  have h4: "seed_redirs world_ok 1 3 (- 1) = Some [\<lparr>pseudofd = 0, realfd = 3\<rparr>]"
    by (simp add: seed_redirs_def world_ok_def)
  have h5: "do_builtin_io_redirects (redir_world world_ok 1) cd_out
        (fds shell_piped, [\<lparr>pseudofd = 0, realfd = 3\<rparr>])
      = (0, stdio[3 := Some (PipeRead 0), 4 := Some (Named ''out'' {O_WRONLY, O_CREAT, O_EXCL})],
         ?l1)"
    by (simp add: do_builtin_io_redirects_def builtin_redirect_def builtin_file_open_def
        sys_open_def fd_install_def cd_out_def shell_piped_def shell0_def stdio_def
        world_ok_def rw_ok_def)
  have h6: "?r = (fst ?r, snd ?r)" by simp
  note t = builtin_redirections_undone [OF h1 h2 h3 h4 h5 h6]
  have c: "fd_lookup (fds (snd ?r)) (realfd \<lparr>pseudofd = 1, realfd = 4\<rparr>) = None"
      "fd_lookup (fds (snd ?r)) (realfd \<lparr>pseudofd = 0, realfd = 3\<rparr>) = None"
    using t by simp_all
  have s: "fd_lookup (fds shell_piped) 0 = Some (Inherited 0)"
      "fd_lookup (fds shell_piped) 1 = Some (Inherited 1)"
      "fd_lookup (fds shell_piped) 2 = Some (Inherited 2)"
    by (simp_all add: fd_lookup_def shell_piped_def stdio_def)
  show ?thesis
    using h1 t c s by simp
qed



end
